theory Spec2Isabelle
  imports Complex_Main "HOL-Library.AList" "HOL-Library.Sublist"
begin

section \<open>Hormone adjustment (persona/hormone\_adjuster.py)\<close>

text \<open>
  Python floats are modelled as real numbers with exact arithmetic; rounding of IEEE
  doubles is outside the model. A Python dict that is built by insertion and then
  iterated (the weight tables, the delta map, the mood scores) is an association list in
  insertion order with distinct keys; the persisted hormone store, which is only indexed
  by key, is a map. The leading underscore of the module's private names is dropped.
\<close>

type_synonym hormone_levels = "string \<rightharpoonup> real"

type_synonym weights = "(string \<times> real) list"

datatype py_error = KeyError string | AttributeError

definition EMOTION_HORMONE_MAP :: "(string \<times> weights) list" where
  "EMOTION_HORMONE_MAP =
    [(''joy'', [(''dopamine'', 0.12), (''serotonin'', 0.08)]),
     (''love'', [(''oxytocin'', 0.15), (''dopamine'', 0.08), (''serotonin'', 0.05)]),
     (''admiration'', [(''dopamine'', 0.06), (''oxytocin'', 0.04)]),
     (''excitement'', [(''dopamine'', 0.10), (''cortisol'', 0.02)]),
     (''gratitude'', [(''serotonin'', 0.08), (''oxytocin'', 0.06)]),
     (''relief'', [(''cortisol'', - 0.08), (''serotonin'', 0.05)]),
     (''pride'', [(''dopamine'', 0.08), (''serotonin'', 0.04)]),
     (''optimism'', [(''dopamine'', 0.06), (''serotonin'', 0.06)]),
     (''caring'', [(''oxytocin'', 0.10), (''serotonin'', 0.04)]),
     (''approval'', [(''dopamine'', 0.05), (''oxytocin'', 0.03)]),
     (''anger'', [(''cortisol'', 0.12), (''dopamine'', - 0.05), (''serotonin'', - 0.04)]),
     (''sadness'', [(''serotonin'', - 0.10), (''cortisol'', 0.06), (''dopamine'', - 0.04)]),
     (''fear'', [(''cortisol'', 0.15), (''serotonin'', - 0.06)]),
     (''disgust'', [(''cortisol'', 0.08), (''serotonin'', - 0.05)]),
     (''annoyance'', [(''cortisol'', 0.06), (''serotonin'', - 0.03)]),
     (''disappointment'', [(''dopamine'', - 0.08), (''serotonin'', - 0.05)]),
     (''embarrassment'', [(''cortisol'', 0.08), (''oxytocin'', - 0.04)]),
     (''grief'', [(''serotonin'', - 0.12), (''cortisol'', 0.10)]),
     (''nervousness'', [(''cortisol'', 0.10), (''dopamine'', - 0.03)]),
     (''remorse'', [(''serotonin'', - 0.06), (''cortisol'', 0.05)]),
     (''surprise'', [(''dopamine'', 0.04), (''cortisol'', 0.02)]),
     (''curiosity'', [(''dopamine'', 0.05)]),
     (''confusion'', [(''cortisol'', 0.03)]),
     (''neutral'', [])]"

definition TOXICITY_HORMONE_MAP :: "(string \<times> weights) list" where
  "TOXICITY_HORMONE_MAP =
    [(''TOXIC'', [(''cortisol'', 0.15), (''serotonin'', - 0.08)]),
     (''toxic'', [(''cortisol'', 0.15), (''serotonin'', - 0.08)]),
     (''severe_toxic'', [(''cortisol'', 0.20), (''serotonin'', - 0.12), (''dopamine'', - 0.06)]),
     (''obscene'', [(''cortisol'', 0.10), (''serotonin'', - 0.06)]),
     (''threat'', [(''cortisol'', 0.18), (''dopamine'', - 0.08)]),
     (''insult'', [(''cortisol'', 0.12), (''serotonin'', - 0.08)]),
     (''identity_hate'', [(''cortisol'', 0.15), (''serotonin'', - 0.10)])]"

definition RATE_LIMIT :: real where
  "RATE_LIMIT = 0.08"

definition DECAY_STEP :: real where
  "DECAY_STEP = 0.01"

definition CONFIDENCE_THRESHOLD :: real where
  "CONFIDENCE_THRESHOLD = 0.3"

definition TOXICITY_THRESHOLD :: real where
  "TOXICITY_THRESHOLD = 0.5"

definition apply_resistance :: "real \<Rightarrow> real \<Rightarrow> real" where
  "apply_resistance current delta =
     (let distance = 1 - \<bar>current - 0.5\<bar> * 2
      in delta * (0.4 + 0.6 * distance))"

subsection \<open>Strings and dicts of the Python runtime\<close>

text \<open>
  \<open>str.lower\<close> on the ASCII letters; every other character is left as it is (the
  classifier labels are ASCII).
\<close>

definition lower_char :: "char \<Rightarrow> char" where
  "lower_char c =
     (case map_of (zip ''ABCDEFGHIJKLMNOPQRSTUVWXYZ'' ''abcdefghijklmnopqrstuvwxyz'') c of
        None \<Rightarrow> c
      | Some l \<Rightarrow> l)"

definition lower :: "string \<Rightarrow> string" where
  "lower s = map lower_char s"

text \<open>\<open>d.get(k, default)\<close> and \<open>d[k] = v\<close> on an insertion-ordered dict.\<close>

definition dict_get :: "('k \<times> 'v) list \<Rightarrow> 'k \<Rightarrow> 'v \<Rightarrow> 'v" where
  "dict_get d k dflt = (case map_of d k of None \<Rightarrow> dflt | Some v \<Rightarrow> v)"

definition dict_set :: "('k \<times> 'v) list \<Rightarrow> 'k \<Rightarrow> 'v \<Rightarrow> ('k \<times> 'v) list" where
  "dict_set d k v = AList.update k v d"

subsection \<open>analyze\_contextual\_sentiment\<close>

text \<open>
  The classifiers are external: their results for the text are the arguments. An emotion
  is a pair (label, score), the list sorted by the classifier; the toxicity result is the
  three-key dict that \<open>detect_toxicity\<close> always builds (\<open>None\<close> stands for a falsy
  result); of the confidence metrics only \<open>overall_confidence\<close> is read.
\<close>

record toxicity_signal =
  is_toxic :: bool
  score :: real
  label :: string

record analysis =
  primary_emotion :: string
  emotion_intensity :: real
  emotions_detected :: "(string \<times> real) list"
  toxicity_detected :: "string list"
  toxicity_score :: real
  hormone_deltas :: weights
  adjustment_reasons :: "string list"

text \<open>Lines 94-102: the primary emotion and its intensity.\<close>

definition primary_of :: "(string \<times> real) list \<Rightarrow> real \<Rightarrow> string \<times> real" where
  "primary_of emotions overall_confidence =
     (if emotions \<noteq> [] \<and> overall_confidence > CONFIDENCE_THRESHOLD
      then (lower (fst (hd emotions)), snd (hd emotions))
      else (''neutral'', 0))"

text \<open>Lines 105-115: the detected toxicity labels and the maximal toxicity score.\<close>

definition toxicity_of :: "toxicity_signal option \<Rightarrow> string list \<times> real" where
  "toxicity_of toxicity_result =
     (case toxicity_result of
        None \<Rightarrow> ([], 0)
      | Some t \<Rightarrow>
          if is_toxic t
          then (let toxic_score = score t; toxic_label = lower (label t)
                in if toxic_score > TOXICITY_THRESHOLD then ([toxic_label], toxic_score)
                   else ([], 0))
          else ([], 0))"

text \<open>
  The inner loops of lines 124-127 and 135-139:
  \<open>hormone_deltas[hormone] = hormone_deltas.get(hormone, 0) + scaled_delta\<close> for every
  item of a weight-table entry, \<open>scale\<close> giving the scaled delta of a base delta.
\<close>

fun accumulate :: "(real \<Rightarrow> real) \<Rightarrow> weights \<Rightarrow> weights \<Rightarrow> weights" where
  "accumulate scale [] deltas = deltas"
| "accumulate scale ((hormone, base_delta) # rest) deltas =
     accumulate scale rest
       (dict_set deltas hormone (dict_get deltas hormone 0 + scale base_delta))"

text \<open>Lines 118-128: the emotion-based adjustments, from an empty delta map.\<close>

definition emotion_adjustments :: "string \<Rightarrow> real \<Rightarrow> real \<Rightarrow> weights \<times> string list" where
  "emotion_adjustments primary intensity overall_confidence =
     (case map_of EMOTION_HORMONE_MAP primary of
        None \<Rightarrow> ([], [])
      | Some emotion_deltas \<Rightarrow>
          (accumulate (\<lambda>base_delta. base_delta * intensity * overall_confidence)
             emotion_deltas [],
           [''emotion_'' @ primary]))"

text \<open>Lines 131-140: the toxicity-based adjustments, onto the same delta map.\<close>

fun toxicity_adjustments ::
  "real \<Rightarrow> string list \<Rightarrow> weights \<times> string list \<Rightarrow> weights \<times> string list" where
  "toxicity_adjustments max_toxicity_score [] acc = acc"
| "toxicity_adjustments max_toxicity_score (tox_label # rest) (deltas, reasons) =
     toxicity_adjustments max_toxicity_score rest
       (case map_of TOXICITY_HORMONE_MAP tox_label of
          None \<Rightarrow> (deltas, reasons)
        | Some tox_deltas \<Rightarrow>
            (accumulate (\<lambda>base_delta. base_delta * max_toxicity_score) tox_deltas deltas,
             reasons @ [''toxicity_'' @ tox_label]))"

definition analyze_contextual_sentiment ::
  "(string \<times> real) list \<Rightarrow> toxicity_signal option \<Rightarrow> real \<Rightarrow> analysis" where
  "analyze_contextual_sentiment emotions toxicity_result overall_confidence =
     (let (primary, intensity) = primary_of emotions overall_confidence;
          (detected, max_toxicity_score) = toxicity_of toxicity_result;
          (deltas, reasons) =
             toxicity_adjustments max_toxicity_score detected
               (emotion_adjustments primary intensity overall_confidence)
      in \<lparr>primary_emotion = primary,
          emotion_intensity = intensity,
          emotions_detected = take 3 emotions,
          toxicity_detected = detected,
          toxicity_score = max_toxicity_score,
          hormone_deltas = deltas,
          adjustment_reasons = reasons\<rparr>)"

subsection \<open>apply\_contextual\_hormone\_adjustments\<close>

text \<open>
  Lines 169-176. \<open>hormones\<close> is the loaded store and \<open>updated\<close> its copy; indexing
  \<open>hormones[hormone]\<close> with a missing key raises \<open>KeyError\<close>.
\<close>

fun rate_limited_updates ::
  "hormone_levels \<Rightarrow> weights \<Rightarrow> hormone_levels \<Rightarrow> py_error + hormone_levels" where
  "rate_limited_updates hormones [] updated = Inr updated"
| "rate_limited_updates hormones ((hormone, base_delta) # rest) updated =
     (case hormones hormone of
        None \<Rightarrow> Inl (KeyError hormone)
      | Some current \<Rightarrow>
          (let delta = max (- RATE_LIMIT) (min RATE_LIMIT base_delta);
               delta = apply_resistance current delta
           in rate_limited_updates hormones rest
                (updated(hormone \<mapsto> max 0 (min 1 (current + delta))))))"

text \<open>Lines 181-186: one level of the neutral branch.\<close>

definition decay_toward_baseline :: "real \<Rightarrow> real" where
  "decay_toward_baseline v =
     (if \<bar>v - 0.5\<bar> < DECAY_STEP then 0.5
      else if v > 0.5 then v - DECAY_STEP
      else v + DECAY_STEP)"

text \<open>
  The body of the function from line 160 on. \<open>load_hormone_levels\<close> and
  \<open>save_hormone_levels\<close> belong to a module that is not part of the sources: the
  argument \<open>hormones\<close> is what the load returned, and the result is the dict that is
  handed to the save and returned. When the function raises, nothing is saved.
\<close>

definition adjust_levels :: "analysis \<Rightarrow> hormone_levels \<Rightarrow> py_error + hormone_levels" where
  "adjust_levels a hormones =
     (if hormone_deltas a \<noteq> []
      then rate_limited_updates hormones (hormone_deltas a) hormones
      else Inr (\<lambda>hormone. map_option decay_toward_baseline (hormones hormone)))"

definition apply_contextual_hormone_adjustments ::
  "(string \<times> real) list \<Rightarrow> toxicity_signal option \<Rightarrow> real \<Rightarrow> hormone_levels
     \<Rightarrow> py_error + hormone_levels" where
  "apply_contextual_hormone_adjustments emotions toxicity_result overall_confidence hormones =
     adjust_levels (analyze_contextual_sentiment emotions toxicity_result overall_confidence)
       hormones"

text \<open>
  A sequence of updates on the persisted store: every call loads what the call before
  saved; the first call that raises ends the run.
\<close>

fun run_updates :: "analysis list \<Rightarrow> hormone_levels \<Rightarrow> py_error + hormone_levels" where
  "run_updates [] hormones = Inr hormones"
| "run_updates (a # rest) hormones =
     (case adjust_levels a hormones of
        Inl e \<Rightarrow> Inl e
      | Inr updated \<Rightarrow> run_updates rest updated)"

text \<open>app.py, line 179: the levels that the reset button saves.\<close>

definition reset_levels :: hormone_levels where
  "reset_levels =
     [''dopamine'' \<mapsto> 0.5, ''serotonin'' \<mapsto> 0.5, ''cortisol'' \<mapsto> 0.5, ''oxytocin'' \<mapsto> 0.5]"

definition in_unit_range :: "hormone_levels \<Rightarrow> bool" where
  "in_unit_range hormones = (\<forall>h v. hormones h = Some v \<longrightarrow> 0 \<le> v \<and> v \<le> 1)"

section \<open>Mood tracking (persona/mood\_tracker.py)\<close>

subsection \<open>calculate\_mood\_from\_hormones\<close>

text \<open>
  Lines 71-115: the dict \<open>mood_scores\<close>, as the list of its items in insertion order.
  Every mood name is assigned at one place only, so an assignment that runs appends an
  item.
\<close>

definition mood_scores :: "real \<Rightarrow> real \<Rightarrow> real \<Rightarrow> real \<Rightarrow> (string \<times> real) list" where
  "mood_scores dopa_dev sero_dev cort_dev oxy_dev =
     (if cort_dev > 0.1
      then (if sero_dev < - 0.05
            then [(''anxious'', \<bar>cort_dev\<bar> + \<bar>sero_dev\<bar> * 0.7)] else [])
         @ (if dopa_dev < - 0.05
            then [(''restless'', \<bar>cort_dev\<bar> + \<bar>dopa_dev\<bar> * 0.6)] else [])
         @ (if cort_dev > 0.15
            then [(''stressed'', \<bar>cort_dev\<bar> * 1.2)] else [])
      else [])
   @ (if sero_dev < - 0.08
      then (if dopa_dev < - 0.05
            then [(''depressed'', \<bar>sero_dev\<bar> + \<bar>dopa_dev\<bar> * 0.8)]
            else if cort_dev > 0.05
            then [(''melancholic'', \<bar>sero_dev\<bar> + \<bar>cort_dev\<bar> * 0.6)]
            else [(''sad'', \<bar>sero_dev\<bar> * 1.1)])
      else [])
   @ (if dopa_dev > 0.08
      then (if oxy_dev > 0.05
            then [(''euphoric'', dopa_dev + oxy_dev * 0.8)]
            else if sero_dev > 0.05
            then [(''cheerful'', dopa_dev + sero_dev * 0.7)]
            else [(''energetic'', dopa_dev * 1.2)])
      else [])
   @ (if oxy_dev > 0.1
      then (if dopa_dev > 0.05
            then [(''loving'', oxy_dev + dopa_dev * 0.6)]
            else if sero_dev > 0.03
            then [(''affectionate'', oxy_dev + sero_dev * 0.8)]
            else [(''caring'', oxy_dev * 1.1)])
      else [])
   @ (if dopa_dev > 0.03 \<and> sero_dev > 0.03 \<and> cort_dev < 0.1
      then [(''content'', (dopa_dev + sero_dev) * 0.8)] else [])
   @ (if \<bar>dopa_dev\<bar> > 0.05 \<and> \<bar>sero_dev\<bar> > 0.05 \<and> \<bar>cort_dev\<bar> > 0.05
      then [(''conflicted'', (\<bar>dopa_dev\<bar> + \<bar>sero_dev\<bar> + \<bar>cort_dev\<bar>) * 0.4)] else [])"

text \<open>
  Python's \<open>max(items, key=lambda x: x[1])\<close> on a non-empty sequence: the first item
  whose key no later item exceeds; \<open>best\<close> is the maximum so far.
\<close>

fun max_by_score :: "string \<times> real \<Rightarrow> (string \<times> real) list \<Rightarrow> string \<times> real" where
  "max_by_score best [] = best"
| "max_by_score best (x # xs) = max_by_score (if snd x > snd best then x else best) xs"

definition levels_get :: "hormone_levels \<Rightarrow> string \<Rightarrow> real \<Rightarrow> real" where
  "levels_get hormone_levels k dflt = (case hormone_levels k of None \<Rightarrow> dflt | Some v \<Rightarrow> v)"

text \<open>The candidates of a hormone dict: lines 57-66 followed by the scoring above.\<close>

definition candidates :: "hormone_levels \<Rightarrow> (string \<times> real) list" where
  "candidates hormone_levels =
     (let dopamine = levels_get hormone_levels ''dopamine'' 0.5;
          serotonin = levels_get hormone_levels ''serotonin'' 0.5;
          cortisol = levels_get hormone_levels ''cortisol'' 0.5;
          oxytocin = levels_get hormone_levels ''oxytocin'' 0.5;
          dopa_dev = dopamine - 0.5;
          sero_dev = serotonin - 0.5;
          cort_dev = cortisol - 0.5;
          oxy_dev = oxytocin - 0.5
      in mood_scores dopa_dev sero_dev cort_dev oxy_dev)"

definition calculate_mood_from_hormones :: "hormone_levels \<Rightarrow> string \<times> real" where
  "calculate_mood_from_hormones hormone_levels =
     (case candidates hormone_levels of
        [] \<Rightarrow> (''neutral'', 0.5)
      | first # others \<Rightarrow>
          (let top_mood = max_by_score first others;
               mood_name = fst top_mood;
               raw_intensity = snd top_mood;
               intensity = min 1 (max 0.1 raw_intensity)
           in (mood_name, intensity)))"

text \<open>Line 321: the hormones of the test case \<open>High Stress\<close>.\<close>

definition high_stress :: hormone_levels where
  "high_stress =
     [''dopamine'' \<mapsto> 0.3, ''serotonin'' \<mapsto> 0.2, ''cortisol'' \<mapsto> 0.8, ''oxytocin'' \<mapsto> 0.4]"

subsection \<open>The mood files and update\_mood\<close>

text \<open>
  A JSON file on disk: missing, present but not parsable, or holding a document. The
  history file holds any JSON value; only a JSON array has an \<open>append\<close>.
\<close>

datatype 'a json_file = Missing | Unparsable | Document 'a

record mood_context =
  ctx_is_hybrid :: "bool option"
  ctx_is_emergent :: "bool option"
  ctx_stability :: "string option"

record mood_data =
  current_mood :: string
  current_intensity :: real
  current_context :: mood_context
  last_updated :: string

record history_entry =
  timestamp :: string
  mood :: string
  intensity :: real
  reason :: string
  is_hybrid :: bool
  is_emergent :: bool
  stability :: string
  hormone_snapshot :: "hormone_levels option"

datatype history_json = JList "history_entry list" | JOther

record persona_files =
  mood_adjustments :: "mood_data json_file"
  mood_history :: "history_json json_file"

text \<open>
  How an attempt to write a file ends: the document is written; or making the directory
  or opening the file raises and the file is untouched; or the file is opened for
  writing and \<open>json.dump\<close> raises, which leaves a truncated file. The second component
  says whether the \<open>try\<close> block ran to its end.
\<close>

datatype write_outcome = Written | OpenFailed | DumpFailed

fun write_json :: "write_outcome \<Rightarrow> 'a \<Rightarrow> 'a json_file \<Rightarrow> 'a json_file \<times> bool" where
  "write_json Written doc file = (Document doc, True)"
| "write_json OpenFailed doc file = (file, False)"
| "write_json DumpFailed doc file = (Unparsable, False)"

text \<open>
  What one call of \<open>update_mood\<close> meets outside the module: the outcomes of its file
  operations, the two readings of the clock, and the functions of the module
  \<open>hormone_api\<close>, which is not part of the sources.
\<close>

record environment =
  mood_write :: write_outcome
  history_init :: write_outcome
  history_readable :: bool
  history_write :: write_outcome
  utcnow_mood :: string
  utcnow_entry :: string
  get_mood_context :: "string \<Rightarrow> real \<Rightarrow> mood_context"
  load_hormone_levels :: hormone_levels

text \<open>Lines 22-38. The result is the file after the call and the value returned.\<close>

definition load_mood_history ::
  "environment \<Rightarrow> history_json json_file \<Rightarrow> history_json json_file \<times> history_json" where
  "load_mood_history env file =
     (case file of
        Missing \<Rightarrow> (fst (write_json (history_init env) (JList []) file), JList [])
      | Unparsable \<Rightarrow> (file, JList [])
      | Document doc \<Rightarrow> if history_readable env then (file, doc) else (file, JList []))"

text \<open>Lines 40-47: every exception is caught and printed.\<close>

definition save_mood_history ::
  "environment \<Rightarrow> history_json \<Rightarrow> history_json json_file \<Rightarrow> history_json json_file" where
  "save_mood_history env history file = fst (write_json (history_write env) history file)"

text \<open>\<open>needle in haystack\<close> on strings.\<close>

fun contains :: "string \<Rightarrow> string \<Rightarrow> bool" where
  "contains needle [] = (needle = [])"
| "contains needle (c # cs) = (take (length needle) (c # cs) = needle \<or> contains needle cs)"

definition dict_get_opt :: "'a option \<Rightarrow> 'a \<Rightarrow> 'a" where
  "dict_get_opt field dflt = (case field of None \<Rightarrow> dflt | Some v \<Rightarrow> v)"

text \<open>Lines 159-171: the entry that a call appends.\<close>

definition new_history_entry ::
  "environment \<Rightarrow> string \<Rightarrow> real \<Rightarrow> string \<Rightarrow> mood_context \<Rightarrow> history_entry" where
  "new_history_entry env new_mood new_intensity new_reason hormone_context =
     (let entry =
            \<lparr>timestamp = utcnow_entry env,
             mood = new_mood,
             intensity = new_intensity,
             reason = new_reason,
             is_hybrid = dict_get_opt (ctx_is_hybrid hormone_context) False,
             is_emergent = dict_get_opt (ctx_is_emergent hormone_context) False,
             stability = dict_get_opt (ctx_stability hormone_context) ''medium'',
             hormone_snapshot = None\<rparr>
      in if new_reason \<noteq> []
            \<and> (contains ''contextual'' new_reason \<or> contains ''hormone_event'' new_reason)
         then entry\<lparr>hormone_snapshot := Some (load_hormone_levels env)\<rparr>
         else entry)"

definition context_of :: "environment \<Rightarrow> string \<Rightarrow> real \<Rightarrow> mood_context option \<Rightarrow> mood_context" where
  "context_of env new_mood new_intensity hormone_context =
     (case hormone_context of
        None \<Rightarrow> get_mood_context env new_mood new_intensity
      | Some c \<Rightarrow> c)"

text \<open>Lines 176-177: \<open>history[-100:]\<close> when the list is longer than 100.\<close>

definition keep_last_100 :: "'a list \<Rightarrow> 'a list" where
  "keep_last_100 history =
     (if length history > 100 then drop (length history - 100) history else history)"

text \<open>
  Lines 136-179. The result is the files after the call and the exception that escapes
  the call, if one does (\<open>append\<close> on a JSON value that is not a list).
\<close>

definition update_mood ::
  "environment \<Rightarrow> string \<Rightarrow> real \<Rightarrow> string \<Rightarrow> mood_context option \<Rightarrow> persona_files
     \<Rightarrow> persona_files \<times> py_error option" where
  "update_mood env new_mood new_intensity new_reason hormone_context_arg files =
     (let hormone_context = context_of env new_mood new_intensity hormone_context_arg;
          data = \<lparr>current_mood = new_mood, current_intensity = new_intensity,
                  current_context = hormone_context, last_updated = utcnow_mood env\<rparr>;
          (mood_file, written) = write_json (mood_write env) data (mood_adjustments files)
      in if \<not> written then (files\<lparr>mood_adjustments := mood_file\<rparr>, None)
         else
           (let (history_file, loaded) = load_mood_history env (mood_history files);
                entry = new_history_entry env new_mood new_intensity new_reason hormone_context
            in case loaded of
                 JOther \<Rightarrow>
                   (files\<lparr>mood_adjustments := mood_file, mood_history := history_file\<rparr>,
                    Some AttributeError)
               | JList history \<Rightarrow>
                   (let history = keep_last_100 (history @ [entry])
                    in (files\<lparr>mood_adjustments := mood_file,
                               mood_history := save_mood_history env (JList history) history_file\<rparr>,
                        None))))"

text \<open>
  The entries of the persisted ledger: the list in the history file, and no entry when
  the file is missing, not parsable or holds another JSON value.
\<close>

definition entries_of :: "history_json json_file \<Rightarrow> history_entry list" where
  "entries_of file =
     (case file of
        Document (JList history) \<Rightarrow> history
      | _ \<Rightarrow> [])"

definition ledger :: "persona_files \<Rightarrow> history_entry list" where
  "ledger files = entries_of (mood_history files)"

text \<open>One call of \<open>update_mood\<close> with its environment, and a sequence of calls.\<close>

record mood_call =
  call_env :: environment
  call_mood :: string
  call_intensity :: real
  call_reason :: string
  call_context :: "mood_context option"

definition run_call :: "mood_call \<Rightarrow> persona_files \<Rightarrow> persona_files \<times> py_error option" where
  "run_call c files =
     update_mood (call_env c) (call_mood c) (call_intensity c) (call_reason c) (call_context c)
       files"

definition entry_of_call :: "mood_call \<Rightarrow> history_entry" where
  "entry_of_call c =
     new_history_entry (call_env c) (call_mood c) (call_intensity c) (call_reason c)
       (context_of (call_env c) (call_mood c) (call_intensity c) (call_context c))"

text \<open>A caller that goes on after an exception: the files are as the call left them.\<close>

fun run_calls :: "mood_call list \<Rightarrow> persona_files \<Rightarrow> persona_files" where
  "run_calls [] files = files"
| "run_calls (c # cs) files = run_calls cs (fst (run_call c files))"

text \<open>A call all of whose file operations succeed.\<close>

definition all_written :: "mood_call \<Rightarrow> bool" where
  "all_written c \<longleftrightarrow>
     mood_write (call_env c) = Written \<and> history_write (call_env c) = Written
     \<and> history_readable (call_env c)"

text \<open>
  app.py, line 177: the reset button calls \<open>update_mood("neutral", 0.5, "manual_reset")\<close>.
  An environment for that call, for given outcomes of the two writes: the history file
  can be created and read, the clock reads are two fixed instants, and the missing
  module returns the default context and the reset levels.
\<close>

definition manual_reset_env :: "write_outcome \<Rightarrow> write_outcome \<Rightarrow> environment" where
  "manual_reset_env mood_outcome history_outcome =
     \<lparr>mood_write = mood_outcome,
      history_init = Written,
      history_readable = True,
      history_write = history_outcome,
      utcnow_mood = ''2025-01-01T00:00:00'',
      utcnow_entry = ''2025-01-01T00:00:01'',
      get_mood_context =
        (\<lambda>new_mood new_intensity.
           \<lparr>ctx_is_hybrid = Some False, ctx_is_emergent = Some False,
            ctx_stability = Some ''medium''\<rparr>),
      load_hormone_levels = reset_levels\<rparr>"

definition manual_reset_call :: "write_outcome \<Rightarrow> write_outcome \<Rightarrow> mood_call" where
  "manual_reset_call mood_outcome history_outcome =
     \<lparr>call_env = manual_reset_env mood_outcome history_outcome,
      call_mood = ''neutral'',
      call_intensity = 0.5,
      call_reason = ''manual_reset'',
      call_context = None\<rparr>"

section \<open>Properties of the hormone adjustment\<close>

subsection \<open>The resistance curve\<close>

lemma resistance_factor_bounds:
  assumes "0 \<le> c" "c \<le> 1"
  shows "0.4 \<le> 0.4 + 0.6 * (1 - \<bar>c - 0.5\<bar> * 2)" "0.4 + 0.6 * (1 - \<bar>c - 0.5\<bar> * 2) \<le> (1::real)"
proof -
  from assms show "0.4 \<le> 0.4 + 0.6 * (1 - \<bar>c - 0.5\<bar> * 2)"
    by argo
  from assms show "0.4 + 0.6 * (1 - \<bar>c - 0.5\<bar> * 2) \<le> (1::real)"
    by argo
qed

lemma abs_apply_resistance:
  assumes "0 \<le> c" "c \<le> 1"
  shows "\<bar>apply_resistance c d\<bar> = \<bar>d\<bar> * (0.4 + 0.6 * (1 - \<bar>c - 0.5\<bar> * 2))"
proof -
  have "0 \<le> 0.4 + 0.6 * (1 - \<bar>c - 0.5\<bar> * 2)"
    using resistance_factor_bounds(1)[OF assms] by linarith
  then show ?thesis
    by (simp add: apply_resistance_def Let_def abs_mult)
qed

lemma abs_apply_resistance_le:
  assumes "0 \<le> c" "c \<le> 1"
  shows "\<bar>apply_resistance c d\<bar> \<le> \<bar>d\<bar>"
proof -
  have "\<bar>d\<bar> * (0.4 + 0.6 * (1 - \<bar>c - 0.5\<bar> * 2)) \<le> \<bar>d\<bar> * 1"
    by (rule mult_left_mono) (use resistance_factor_bounds(2)[OF assms] in auto)
  then show ?thesis by (simp add: abs_apply_resistance[OF assms])
qed

lemma abs_apply_resistance_ge:
  assumes "0 \<le> c" "c \<le> 1"
  shows "0.4 * \<bar>d\<bar> \<le> \<bar>apply_resistance c d\<bar>"
proof -
  have "\<bar>d\<bar> * 0.4 \<le> \<bar>d\<bar> * (0.4 + 0.6 * (1 - \<bar>c - 0.5\<bar> * 2))"
    by (rule mult_left_mono) (use resistance_factor_bounds(1)[OF assms] in auto)
  then show ?thesis by (simp add: abs_apply_resistance[OF assms] mult.commute)
qed

lemma abs_apply_resistance_mono:
  assumes "0 \<le> c" "c \<le> 1" "0 \<le> c'" "c' \<le> 1" "\<bar>c - 0.5\<bar> \<le> \<bar>c' - 0.5\<bar>"
  shows "\<bar>apply_resistance c' d\<bar> \<le> \<bar>apply_resistance c d\<bar>"
proof -
  have "\<bar>d\<bar> * (0.4 + 0.6 * (1 - \<bar>c' - 0.5\<bar> * 2)) \<le> \<bar>d\<bar> * (0.4 + 0.6 * (1 - \<bar>c - 0.5\<bar> * 2))"
    by (rule mult_left_mono) (use assms(5) in auto)
  then show ?thesis
    by (simp add: abs_apply_resistance[OF assms(1,2)] abs_apply_resistance[OF assms(3,4)])
qed

text \<open>
  Claim C5. For a current level \<open>c\<close> in [0,1] and any raw delta \<open>d\<close>, the resistance
  curve returns \<open>d * (0.4 + 0.6 * (1 - |c - 0.5| * 2))\<close>; it returns \<open>d\<close> at the baseline
  0.5; its magnitude is at least \<open>0.4 * |d|\<close> at the levels 0 and 1 (and at every level
  of [0,1]) and at most \<open>|d|\<close>; and for a fixed \<open>d\<close> the magnitude does not grow when
  \<open>|c - 0.5|\<close> grows.
\<close>

theorem apply_resistance_curve:
  assumes "0 \<le> c" and "c \<le> 1"
  shows "apply_resistance c d = d * (0.4 + 0.6 * (1 - \<bar>c - 0.5\<bar> * 2))
       \<and> apply_resistance 0.5 d = d
       \<and> 0.4 * \<bar>d\<bar> \<le> \<bar>apply_resistance 0 d\<bar>
       \<and> 0.4 * \<bar>d\<bar> \<le> \<bar>apply_resistance 1 d\<bar>
       \<and> 0.4 * \<bar>d\<bar> \<le> \<bar>apply_resistance c d\<bar>
       \<and> \<bar>apply_resistance c d\<bar> \<le> \<bar>d\<bar>
       \<and> (\<forall>c'. 0 \<le> c' \<and> c' \<le> 1 \<and> \<bar>c - 0.5\<bar> \<le> \<bar>c' - 0.5\<bar>
              \<longrightarrow> \<bar>apply_resistance c' d\<bar> \<le> \<bar>apply_resistance c d\<bar>)"
proof -
  have "apply_resistance c d = d * (0.4 + 0.6 * (1 - \<bar>c - 0.5\<bar> * 2))"
    by (simp add: apply_resistance_def Let_def)
  moreover have "apply_resistance 0.5 d = d"
    by (simp add: apply_resistance_def Let_def)
  moreover have "0.4 * \<bar>d\<bar> \<le> \<bar>apply_resistance 0 d\<bar>"
    by (rule abs_apply_resistance_ge) simp_all
  moreover have "0.4 * \<bar>d\<bar> \<le> \<bar>apply_resistance 1 d\<bar>"
    by (rule abs_apply_resistance_ge) simp_all
  moreover have "0.4 * \<bar>d\<bar> \<le> \<bar>apply_resistance c d\<bar>"
    by (rule abs_apply_resistance_ge[OF assms])
  moreover have "\<bar>apply_resistance c d\<bar> \<le> \<bar>d\<bar>"
    by (rule abs_apply_resistance_le[OF assms])
  moreover have "\<forall>c'. 0 \<le> c' \<and> c' \<le> 1 \<and> \<bar>c - 0.5\<bar> \<le> \<bar>c' - 0.5\<bar>
              \<longrightarrow> \<bar>apply_resistance c' d\<bar> \<le> \<bar>apply_resistance c d\<bar>"
    using abs_apply_resistance_mono[OF assms] by blast
  ultimately show ?thesis by blast
qed

theorem apply_resistance_curve_witness:
  "apply_resistance 0.9 0.08 = 0.0416
   \<and> apply_resistance 0.5 0.08 = 0.08
   \<and> \<bar>apply_resistance 0 0.08\<bar> = 0.032
   \<and> \<bar>apply_resistance 1 (- 0.08)\<bar> = 0.032
   \<and> \<bar>apply_resistance 1 0.08\<bar> \<le> \<bar>apply_resistance 0.9 0.08\<bar>"
proof -
  have h: "(0::real) \<le> 0.9" "(0.9::real) \<le> 1" by simp_all
  note t = apply_resistance_curve[OF h, of "0.08"]
  from t have "0 \<le> (1::real) \<and> (1::real) \<le> 1 \<and> \<bar>0.9 - 0.5\<bar> \<le> \<bar>(1::real) - 0.5\<bar>
      \<longrightarrow> \<bar>apply_resistance 1 0.08\<bar> \<le> \<bar>apply_resistance 0.9 0.08\<bar>"
    by blast
  then have "\<bar>apply_resistance 1 0.08\<bar> \<le> \<bar>apply_resistance 0.9 0.08\<bar>"
    by simp
  moreover have "apply_resistance 0.9 0.08 = 0.0416"
    using t by simp
  moreover have "apply_resistance 0.5 0.08 = 0.08" "\<bar>apply_resistance 0 0.08\<bar> = 0.032"
    "\<bar>apply_resistance 1 (- 0.08)\<bar> = 0.032"
    by (simp_all add: apply_resistance_def Let_def)
  ultimately show ?thesis by blast
qed

subsection \<open>Levels stay in the unit interval\<close>

lemma clamp_unit: "0 \<le> max 0 (min 1 (x::real)) \<and> max 0 (min 1 x) \<le> 1"
  by simp

lemma rate_limited_updates_range:
  "in_unit_range updated \<Longrightarrow> rate_limited_updates hormones deltas updated = Inr r
     \<Longrightarrow> in_unit_range r"
proof (induction deltas arbitrary: updated)
  case Nil
  then show ?case by simp
next
  case (Cons p deltas)
  obtain h d where p: "p = (h, d)" by (cases p)
  from Cons.prems(2) p obtain cur where cur: "hormones h = Some cur"
    by (auto split: option.splits)
  let ?new = "max 0 (min 1 (cur + apply_resistance cur (max (- RATE_LIMIT) (min RATE_LIMIT d))))"
  have "in_unit_range (updated(h \<mapsto> ?new))"
    using Cons.prems(1) by (simp add: in_unit_range_def)
  moreover have "rate_limited_updates hormones deltas (updated(h \<mapsto> ?new)) = Inr r"
    using Cons.prems(2) p cur by (simp add: Let_def)
  ultimately show ?case by (rule Cons.IH)
qed

lemma DECAY_STEP_eq: "DECAY_STEP = 1 / 100"
  by (simp add: DECAY_STEP_def)

lemma RATE_LIMIT_eq: "RATE_LIMIT = 2 / 25"
  by (simp add: RATE_LIMIT_def)

lemma decay_toward_baseline_range:
  "0 \<le> v \<Longrightarrow> v \<le> 1 \<Longrightarrow> 0 \<le> decay_toward_baseline v \<and> decay_toward_baseline v \<le> 1"
  unfolding decay_toward_baseline_def DECAY_STEP_eq by argo

lemma adjust_levels_range:
  assumes "in_unit_range hormones" and "adjust_levels a hormones = Inr updated"
  shows "in_unit_range updated"
proof (cases "hormone_deltas a = []")
  case True
  with assms(2) have u: "updated = (\<lambda>h. map_option decay_toward_baseline (hormones h))"
    by (simp add: adjust_levels_def)
  show ?thesis
    unfolding in_unit_range_def u
    using assms(1) decay_toward_baseline_range
    by (auto simp: in_unit_range_def)
next
  case False
  with assms(2) have "rate_limited_updates hormones (hormone_deltas a) hormones = Inr updated"
    by (simp add: adjust_levels_def)
  with assms(1) show ?thesis by (rule rate_limited_updates_range)
qed

lemma run_updates_range:
  "in_unit_range hormones \<Longrightarrow> run_updates as hormones = Inr final \<Longrightarrow> in_unit_range final"
proof (induction as arbitrary: hormones)
  case Nil
  then show ?case by simp
next
  case (Cons a as)
  from Cons.prems(2) obtain updated where
    u: "adjust_levels a hormones = Inr updated" and r: "run_updates as updated = Inr final"
    by (auto split: sum.splits)
  from Cons.prems(1) u have "in_unit_range updated" by (rule adjust_levels_range)
  then show ?case using r by (rule Cons.IH)
qed

text \<open>
  Claim C1. When every level of the store is in [0,1], every level of the dict that
  \<open>apply_contextual_hormone_adjustments\<close> saves and returns is in [0,1] again, for every
  analysis result (both for the rate-limited branch and for the decay branch), and so
  is every level after any sequence of updates.
\<close>

theorem hormone_levels_stay_in_unit_range:
  assumes "in_unit_range hormones"
  shows "(\<forall>a updated. adjust_levels a hormones = Inr updated \<longrightarrow> in_unit_range updated)
       \<and> (\<forall>emotions toxicity_result overall_confidence updated.
            apply_contextual_hormone_adjustments emotions toxicity_result overall_confidence
              hormones = Inr updated \<longrightarrow> in_unit_range updated)
       \<and> (\<forall>as final. run_updates as hormones = Inr final \<longrightarrow> in_unit_range final)"
  using assms adjust_levels_range run_updates_range
  unfolding apply_contextual_hormone_adjustments_def by blast


lemma fear_at_baseline:
  "apply_contextual_hormone_adjustments [(''fear'', 1)] None 1 reset_levels
     = Inr (reset_levels(''cortisol'' \<mapsto> 0.58, ''serotonin'' \<mapsto> 0.44))"
  by (simp add: apply_contextual_hormone_adjustments_def adjust_levels_def
      analyze_contextual_sentiment_def primary_of_def toxicity_of_def emotion_adjustments_def
      EMOTION_HORMONE_MAP_def lower_def lower_char_def CONFIDENCE_THRESHOLD_def
      dict_get_def dict_set_def reset_levels_def RATE_LIMIT_def apply_resistance_def Let_def)

lemma in_unit_range_reset_levels: "in_unit_range reset_levels"
  by (simp add: in_unit_range_def reset_levels_def)

theorem hormone_levels_stay_in_unit_range_witness:
  "in_unit_range reset_levels
   \<and> apply_contextual_hormone_adjustments [(''fear'', 1)] None 1 reset_levels
       = Inr (reset_levels(''cortisol'' \<mapsto> 0.58, ''serotonin'' \<mapsto> 0.44))
   \<and> in_unit_range (reset_levels(''cortisol'' \<mapsto> 0.58, ''serotonin'' \<mapsto> 0.44))"
  using hormone_levels_stay_in_unit_range[OF in_unit_range_reset_levels]
    fear_at_baseline in_unit_range_reset_levels
  by blast

subsection \<open>The rate limit\<close>

lemma clamp_step_le:
  fixes c e b :: real
  assumes "0 \<le> c" "c \<le> 1" "\<bar>e\<bar> \<le> b"
  shows "\<bar>max 0 (min 1 (c + e)) - c\<bar> \<le> b"
  using assms by linarith

lemma abs_rate_limited:
  fixes d limit :: real
  assumes "0 \<le> limit"
  shows "\<bar>max (- limit) (min limit d)\<bar> \<le> limit"
  using assms by linarith

lemma limited_step_bound:
  assumes "0 \<le> cur" "cur \<le> 1"
  shows "\<bar>max 0 (min 1 (cur + apply_resistance cur (max (- RATE_LIMIT) (min RATE_LIMIT d)))) - cur\<bar>
           \<le> 0.08"
proof -
  define e where "e = max (- RATE_LIMIT) (min RATE_LIMIT d)"
  have "\<bar>e\<bar> \<le> RATE_LIMIT"
    unfolding e_def by (rule abs_rate_limited) (simp add: RATE_LIMIT_def)
  moreover have "\<bar>apply_resistance cur e\<bar> \<le> \<bar>e\<bar>"
    by (rule abs_apply_resistance_le[OF assms])
  ultimately have "\<bar>apply_resistance cur e\<bar> \<le> RATE_LIMIT" by (rule order_trans[rotated])
  from clamp_step_le[OF assms this] show ?thesis
    unfolding e_def by (simp add: RATE_LIMIT_def)
qed

lemma rate_limited_updates_bound:
  assumes "in_unit_range hormones"
  shows "(\<forall>h v v'. hormones h = Some v \<and> updated h = Some v' \<longrightarrow> \<bar>v' - v\<bar> \<le> 0.08)
     \<Longrightarrow> rate_limited_updates hormones deltas updated = Inr r
     \<Longrightarrow> (\<forall>h v v'. hormones h = Some v \<and> r h = Some v' \<longrightarrow> \<bar>v' - v\<bar> \<le> 0.08)"
proof (induction deltas arbitrary: updated)
  case Nil
  then show ?case by simp
next
  case (Cons p deltas)
  obtain k d where p: "p = (k, d)" by (cases p)
  from Cons.prems(2) p obtain cur where cur: "hormones k = Some cur"
    by (auto split: option.splits)
  define new where
    "new = max 0 (min 1 (cur + apply_resistance cur (max (- RATE_LIMIT) (min RATE_LIMIT d))))"
  from assms cur have c: "0 \<le> cur" "cur \<le> 1" by (auto simp: in_unit_range_def)
  have nb: "\<bar>new - cur\<bar> \<le> 0.08"
    unfolding new_def by (rule limited_step_bound[OF c])
  have "\<forall>h v v'. hormones h = Some v \<and> (updated(k \<mapsto> new)) h = Some v' \<longrightarrow> \<bar>v' - v\<bar> \<le> 0.08"
  proof (intro allI impI)
    fix h v v'
    assume a: "hormones h = Some v \<and> (updated(k \<mapsto> new)) h = Some v'"
    show "\<bar>v' - v\<bar> \<le> 0.08"
    proof (cases "h = k")
      case True
      with a cur have "v = cur" "v' = new" by simp_all
      with nb show ?thesis by simp
    next
      case False
      with a have "hormones h = Some v \<and> updated h = Some v'" by simp
      with Cons.prems(1) show ?thesis by blast
    qed
  qed
  moreover have "rate_limited_updates hormones deltas (updated(k \<mapsto> new)) = Inr r"
    using Cons.prems(2) p cur by (simp add: Let_def new_def)
  ultimately show ?case by (rule Cons.IH)
qed

lemma rate_limited_updates_dom:
  "rate_limited_updates hormones deltas updated = Inr r
     \<Longrightarrow> dom r = dom updated \<union> fst ` set deltas \<and> fst ` set deltas \<subseteq> dom hormones"
proof (induction deltas arbitrary: updated)
  case Nil
  then show ?case by simp
next
  case (Cons p deltas)
  obtain k d where p: "p = (k, d)" by (cases p)
  from Cons.prems p obtain cur where cur: "hormones k = Some cur"
    by (auto split: option.splits)
  let ?new = "max 0 (min 1 (cur + apply_resistance cur (max (- RATE_LIMIT) (min RATE_LIMIT d))))"
  have "rate_limited_updates hormones deltas (updated(k \<mapsto> ?new)) = Inr r"
    using Cons.prems p cur by (simp add: Let_def)
  from Cons.IH[OF this] show ?case using p cur by auto
qed

lemma rate_limited_updates_other:
  "h \<notin> fst ` set deltas \<Longrightarrow> rate_limited_updates hormones deltas updated = Inr r
     \<Longrightarrow> r h = updated h"
proof (induction deltas arbitrary: updated)
  case Nil
  then show ?case by simp
next
  case (Cons p deltas)
  obtain k d where p: "p = (k, d)" by (cases p)
  from Cons.prems(2) p obtain cur where cur: "hormones k = Some cur"
    by (auto split: option.splits)
  let ?new = "max 0 (min 1 (cur + apply_resistance cur (max (- RATE_LIMIT) (min RATE_LIMIT d))))"
  have rest: "rate_limited_updates hormones deltas (updated(k \<mapsto> ?new)) = Inr r"
    using Cons.prems(2) p cur by (simp add: Let_def)
  have nk: "h \<notin> fst ` set deltas" "h \<noteq> k" using Cons.prems(1) p by auto
  from Cons.IH[OF nk(1) rest] have "r h = (updated(k \<mapsto> ?new)) h" .
  with nk(2) show ?case by simp
qed

lemma rate_limited_updates_value:
  "distinct (map fst deltas) \<Longrightarrow> (h, d) \<in> set deltas
     \<Longrightarrow> rate_limited_updates hormones deltas updated = Inr r
     \<Longrightarrow> \<exists>v. hormones h = Some v
           \<and> r h = Some (max 0 (min 1 (v + apply_resistance v (max (- RATE_LIMIT) (min RATE_LIMIT d)))))"
proof (induction deltas arbitrary: updated)
  case Nil
  then show ?case by simp
next
  case (Cons p deltas)
  obtain k e where p: "p = (k, e)" by (cases p)
  from Cons.prems(3) p obtain cur where cur: "hormones k = Some cur"
    by (auto split: option.splits)
  let ?new = "max 0 (min 1 (cur + apply_resistance cur (max (- RATE_LIMIT) (min RATE_LIMIT e))))"
  have rest: "rate_limited_updates hormones deltas (updated(k \<mapsto> ?new)) = Inr r"
    using Cons.prems(3) p cur by (simp add: Let_def)
  show ?case
  proof (cases "(h, d) = (k, e)")
    case True
    with Cons.prems(1) p have "h \<notin> fst ` set deltas" by auto
    from rate_limited_updates_other[OF this rest] True cur show ?thesis by simp
  next
    case False
    with Cons.prems(2) p have "(h, d) \<in> set deltas" by auto
    moreover from Cons.prems(1) have "distinct (map fst deltas)" by simp
    ultimately show ?thesis using rest Cons.IH by blast
  qed
qed

lemma decay_step_bound: "\<bar>decay_toward_baseline v - v\<bar> \<le> 0.08"
proof -
  have "\<bar>decay_toward_baseline v - v\<bar> \<le> 2 / 25"
    unfolding decay_toward_baseline_def DECAY_STEP_eq by argo
  then show ?thesis by simp
qed

text \<open>
  Claim C6. Every raw delta is clamped to [-0.08, +0.08] before the resistance curve is
  applied to it, and the new level is the clamped sum: for a store with levels in [0,1],
  one update changes no level by more than 0.08 in absolute value and leaves the key set
  as it was, whatever the size of the raw deltas.
\<close>

theorem rate_limit_bounds_level_change:
  assumes "in_unit_range hormones" and "adjust_levels a hormones = Inr updated"
  shows "(\<forall>h v v'. hormones h = Some v \<and> updated h = Some v' \<longrightarrow> \<bar>v' - v\<bar> \<le> 0.08)
       \<and> dom updated = dom hormones
       \<and> (\<forall>h d. distinct (map fst (hormone_deltas a)) \<and> (h, d) \<in> set (hormone_deltas a) \<longrightarrow>
            (\<exists>v. hormones h = Some v
               \<and> updated h = Some (max 0 (min 1
                    (v + apply_resistance v (max (- 0.08) (min 0.08 d)))))))"
proof (cases "hormone_deltas a = []")
  case True
  with assms(2) have u: "updated = (\<lambda>h. map_option decay_toward_baseline (hormones h))"
    by (simp add: adjust_levels_def)
  have "\<forall>h v v'. hormones h = Some v \<and> updated h = Some v' \<longrightarrow> \<bar>v' - v\<bar> \<le> 0.08"
    unfolding u using decay_step_bound by auto
  moreover have "dom updated = dom hormones"
    unfolding u by (auto simp: dom_def)
  ultimately show ?thesis using True by simp
next
  case False
  with assms(2) have r: "rate_limited_updates hormones (hormone_deltas a) hormones = Inr updated"
    by (simp add: adjust_levels_def)
  have "\<forall>h v v'. hormones h = Some v \<and> updated h = Some v' \<longrightarrow> \<bar>v' - v\<bar> \<le> 0.08"
    by (rule rate_limited_updates_bound[OF assms(1) _ r]) auto
  moreover have "dom updated = dom hormones"
    using rate_limited_updates_dom[OF r] by auto
  moreover have "\<forall>h d. distinct (map fst (hormone_deltas a)) \<and> (h, d) \<in> set (hormone_deltas a) \<longrightarrow>
            (\<exists>v. hormones h = Some v
               \<and> updated h = Some (max 0 (min 1
                    (v + apply_resistance v (max (- 0.08) (min 0.08 d))))))"
    using rate_limited_updates_value[OF _ _ r] by (simp add: RATE_LIMIT_def)
  ultimately show ?thesis by blast
qed


lemma fear_deltas:
  "hormone_deltas (analyze_contextual_sentiment [(''fear'', 1)] None 1)
     = [(''cortisol'', 0.15), (''serotonin'', - 0.06)]"
  by (simp add: analyze_contextual_sentiment_def primary_of_def toxicity_of_def
      emotion_adjustments_def EMOTION_HORMONE_MAP_def lower_def lower_char_def
      CONFIDENCE_THRESHOLD_def dict_get_def dict_set_def)

theorem rate_limit_bounds_level_change_witness:
  "in_unit_range reset_levels
   \<and> hormone_deltas (analyze_contextual_sentiment [(''fear'', 1)] None 1)
       = [(''cortisol'', 0.15), (''serotonin'', - 0.06)]
   \<and> adjust_levels (analyze_contextual_sentiment [(''fear'', 1)] None 1) reset_levels
       = Inr (reset_levels(''cortisol'' \<mapsto> 0.58, ''serotonin'' \<mapsto> 0.44))
   \<and> \<bar>0.58 - 0.5\<bar> \<le> (0.08 :: real)
   \<and> dom (reset_levels(''cortisol'' \<mapsto> 0.58, ''serotonin'' \<mapsto> 0.44)) = dom reset_levels"
proof -
  have r: "adjust_levels (analyze_contextual_sentiment [(''fear'', 1)] None 1) reset_levels
       = Inr (reset_levels(''cortisol'' \<mapsto> 0.58, ''serotonin'' \<mapsto> 0.44))"
    using fear_at_baseline by (simp add: apply_contextual_hormone_adjustments_def)
  note t = rate_limit_bounds_level_change[OF in_unit_range_reset_levels r]
  from t have "reset_levels ''cortisol'' = Some 0.5
        \<and> (reset_levels(''cortisol'' \<mapsto> 0.58, ''serotonin'' \<mapsto> 0.44)) ''cortisol'' = Some 0.58
      \<longrightarrow> \<bar>0.58 - 0.5\<bar> \<le> (0.08 :: real)"
    by blast
  then have "\<bar>0.58 - 0.5\<bar> \<le> (0.08 :: real)"
    by (simp add: reset_levels_def)
  moreover from t
  have "dom (reset_levels(''cortisol'' \<mapsto> 0.58, ''serotonin'' \<mapsto> 0.44)) = dom reset_levels"
    by blast
  ultimately show ?thesis
    using in_unit_range_reset_levels fear_deltas r by blast
qed

subsection \<open>Decay toward the baseline\<close>

lemma decay_dist:
  "\<bar>decay_toward_baseline v - 1 / 2\<bar>
     = (if \<bar>v - 1 / 2\<bar> < 1 / 100 then 0 else \<bar>v - 1 / 2\<bar> - 1 / 100)"
  unfolding decay_toward_baseline_def DECAY_STEP_eq by (simp add: abs_if)

lemma decay_reaches_baseline:
  "nat \<lceil>\<bar>v - 1 / 2\<bar> / (1 / 100)\<rceil> \<le> n \<Longrightarrow> (decay_toward_baseline ^^ n) v = 1 / 2"
proof (induction n arbitrary: v)
  case 0
  then have "\<lceil>\<bar>v - 1 / 2\<bar> * 100\<rceil> \<le> 0" by simp
  then have "\<bar>v - 1 / 2\<bar> * 100 \<le> 0" by (simp add: ceiling_le_iff)
  then show ?case by simp
next
  case (Suc n)
  have "nat \<lceil>\<bar>decay_toward_baseline v - 1 / 2\<bar> / (1 / 100)\<rceil> \<le> n"
  proof (cases "\<bar>v - 1 / 2\<bar> < 1 / 100")
    case True
    then show ?thesis by (simp add: decay_dist)
  next
    case False
    then have "\<bar>decay_toward_baseline v - 1 / 2\<bar> / (1 / 100) = \<bar>v - 1 / 2\<bar> / (1 / 100) - 1"
      by (simp add: decay_dist)
    then have "\<lceil>\<bar>decay_toward_baseline v - 1 / 2\<bar> / (1 / 100)\<rceil> = \<lceil>\<bar>v - 1 / 2\<bar> / (1 / 100)\<rceil> - 1"
      by simp
    with Suc.prems show ?thesis by linarith
  qed
  then have "(decay_toward_baseline ^^ n) (decay_toward_baseline v) = 1 / 2"
    by (rule Suc.IH)
  then show ?case by (simp add: funpow_swap1)
qed

lemma decay_no_overshoot:
  "(1 / 2 \<le> v \<longrightarrow> 1 / 2 \<le> decay_toward_baseline v \<and> decay_toward_baseline v \<le> v)
   \<and> (v \<le> 1 / 2 \<longrightarrow> v \<le> decay_toward_baseline v \<and> decay_toward_baseline v \<le> 1 / 2)"
  unfolding decay_toward_baseline_def DECAY_STEP_eq by (simp add: abs_if)

lemma decay_funpow_no_overshoot:
  "(1 / 2 \<le> v \<longrightarrow> 1 / 2 \<le> (decay_toward_baseline ^^ n) v \<and> (decay_toward_baseline ^^ n) v \<le> v)
   \<and> (v \<le> 1 / 2 \<longrightarrow> v \<le> (decay_toward_baseline ^^ n) v \<and> (decay_toward_baseline ^^ n) v \<le> 1 / 2)"
proof (induction n)
  case 0
  then show ?case by simp
next
  case (Suc n)
  from Suc decay_no_overshoot[of "(decay_toward_baseline ^^ n) v"] show ?case
    by (simp; linarith)
qed

lemma neutral_run:
  "hormone_deltas a = [] \<Longrightarrow>
     run_updates (replicate n a) hormones
       = Inr (\<lambda>h. map_option (decay_toward_baseline ^^ n) (hormones h))"
proof (induction n arbitrary: hormones)
  case 0
  then show ?case by (simp add: option.map_ident)
next
  case (Suc n)
  have "adjust_levels a hormones = Inr (\<lambda>h. map_option decay_toward_baseline (hormones h))"
    using Suc.prems by (simp add: adjust_levels_def)
  then show ?case
    using Suc.IH[OF Suc.prems] by (simp add: option.map_comp funpow_swap1 comp_def)
qed


text \<open>
  Claim C3. With an empty delta map the update moves every level 0.01 toward 0.5 and
  sets it to exactly 0.5 when it is less than 0.01 away; repeated, the neutral update
  brings a level \<open>v\<close> to exactly 0.5 after \<open>ceil(|v - 0.5| / 0.01)\<close> updates, where it
  stays, and the level never crosses 0.5 (nor moves away from it).
\<close>

theorem neutral_updates_converge:
  assumes "hormone_deltas a = []" and "hormones h = Some v"
  shows "adjust_levels a hormones = Inr (\<lambda>k. map_option decay_toward_baseline (hormones k))
       \<and> decay_toward_baseline v
           = (if \<bar>v - 0.5\<bar> < 0.01 then 0.5 else if v > 0.5 then v - 0.01 else v + 0.01)
       \<and> (\<forall>n. \<exists>final v'. run_updates (replicate n a) hormones = Inr final \<and> final h = Some v'
             \<and> (nat \<lceil>\<bar>v - 0.5\<bar> / 0.01\<rceil> \<le> n \<longrightarrow> v' = 0.5)
             \<and> (0.5 \<le> v \<longrightarrow> 0.5 \<le> v' \<and> v' \<le> v)
             \<and> (v \<le> 0.5 \<longrightarrow> v \<le> v' \<and> v' \<le> 0.5))"
proof -
  have one: "adjust_levels a hormones = Inr (\<lambda>k. map_option decay_toward_baseline (hormones k))"
    using assms(1) by (simp add: adjust_levels_def)
  have shape: "decay_toward_baseline v
           = (if \<bar>v - 0.5\<bar> < 0.01 then 0.5 else if v > 0.5 then v - 0.01 else v + 0.01)"
    by (simp add: decay_toward_baseline_def DECAY_STEP_def)
  have many: "\<exists>final v'. run_updates (replicate n a) hormones = Inr final \<and> final h = Some v'
             \<and> (nat \<lceil>\<bar>v - 0.5\<bar> / 0.01\<rceil> \<le> n \<longrightarrow> v' = 0.5)
             \<and> (0.5 \<le> v \<longrightarrow> 0.5 \<le> v' \<and> v' \<le> v)
             \<and> (v \<le> 0.5 \<longrightarrow> v \<le> v' \<and> v' \<le> 0.5)" for n
  proof (intro exI conjI)
    show "run_updates (replicate n a) hormones
            = Inr (\<lambda>k. map_option (decay_toward_baseline ^^ n) (hormones k))"
      by (rule neutral_run[OF assms(1)])
    show "map_option (decay_toward_baseline ^^ n) (hormones h)
            = Some ((decay_toward_baseline ^^ n) v)"
      by (simp add: assms(2))
    show "nat \<lceil>\<bar>v - 0.5\<bar> / 0.01\<rceil> \<le> n \<longrightarrow> (decay_toward_baseline ^^ n) v = 0.5"
      using decay_reaches_baseline[of v n] by simp
    show "0.5 \<le> v \<longrightarrow> 0.5 \<le> (decay_toward_baseline ^^ n) v \<and> (decay_toward_baseline ^^ n) v \<le> v"
      using decay_funpow_no_overshoot[of v n] by simp
    show "v \<le> 0.5 \<longrightarrow> v \<le> (decay_toward_baseline ^^ n) v \<and> (decay_toward_baseline ^^ n) v \<le> 0.5"
      using decay_funpow_no_overshoot[of v n] by simp
  qed
  from one shape many show ?thesis by blast
qed

lemma neutral_deltas: "hormone_deltas (analyze_contextual_sentiment [] None 0) = []"
  by (simp add: analyze_contextual_sentiment_def primary_of_def toxicity_of_def
      emotion_adjustments_def EMOTION_HORMONE_MAP_def)

lemma three_neutral_updates:
  "run_updates (replicate 3 (analyze_contextual_sentiment [] None 0)) [''dopamine'' \<mapsto> 0.525]
     = Inr [''dopamine'' \<mapsto> 0.5]"
  by (simp add: numeral_3_eq_3 adjust_levels_def neutral_deltas decay_toward_baseline_def
      DECAY_STEP_def fun_eq_iff)

lemma two_neutral_updates:
  "run_updates (replicate 2 (analyze_contextual_sentiment [] None 0)) [''dopamine'' \<mapsto> 0.525]
     = Inr [''dopamine'' \<mapsto> 0.505]"
  by (simp add: numeral_2_eq_2 adjust_levels_def neutral_deltas decay_toward_baseline_def
      DECAY_STEP_def fun_eq_iff)

theorem neutral_updates_converge_witness:
  "hormone_deltas (analyze_contextual_sentiment [] None 0) = []
   \<and> nat \<lceil>\<bar>0.525 - 0.5\<bar> / (0.01 :: real)\<rceil> = 3
   \<and> run_updates (replicate 3 (analyze_contextual_sentiment [] None 0)) [''dopamine'' \<mapsto> 0.525]
       = Inr [''dopamine'' \<mapsto> 0.5]
   \<and> run_updates (replicate 2 (analyze_contextual_sentiment [] None 0)) [''dopamine'' \<mapsto> 0.525]
       = Inr [''dopamine'' \<mapsto> 0.505]"
proof -
  have h: "[''dopamine'' \<mapsto> (0.525 :: real)] ''dopamine'' = Some 0.525" by simp
  have c: "nat \<lceil>\<bar>0.525 - 0.5\<bar> / (0.01 :: real)\<rceil> = 3" by simp
  note t = neutral_updates_converge[where hormones = "[''dopamine'' \<mapsto> 0.525]"
      and h = "''dopamine''", OF neutral_deltas h]
  from t obtain final v' where
    "run_updates (replicate 3 (analyze_contextual_sentiment [] None 0)) [''dopamine'' \<mapsto> 0.525]
       = Inr final" "final ''dopamine'' = Some v'"
    "nat \<lceil>\<bar>0.525 - 0.5\<bar> / (0.01 :: real)\<rceil> \<le> 3 \<longrightarrow> v' = 0.5"
    by blast
  with c neutral_deltas three_neutral_updates two_neutral_updates show ?thesis by simp
qed

section \<open>Properties of the sentiment analysis\<close>

subsection \<open>Delta maps\<close>

lemma dict_set_keys: "fst ` set (dict_set d k v) = insert k (fst ` set d)"
  by (induction d) (auto simp: dict_set_def)

lemma map_of_dict_set: "map_of (dict_set d k v) = (map_of d)(k \<mapsto> v)"
  by (simp add: dict_set_def update_conv')

lemma dict_set_fresh: "k \<notin> fst ` set d \<Longrightarrow> dict_set d k v = d @ [(k, v)]"
  by (induction d) (auto simp: dict_set_def)

lemma dict_get_fresh: "k \<notin> fst ` set d \<Longrightarrow> dict_get d k dflt = dflt"
proof -
  assume "k \<notin> fst ` set d"
  then have "map_of d k = None" by (simp add: map_of_eq_None_iff)
  then show ?thesis by (simp add: dict_get_def)
qed

lemma accumulate_keys:
  "fst ` set (accumulate f ws acc) = fst ` set acc \<union> fst ` set ws"
  by (induction f ws acc rule: accumulate.induct) (auto simp: dict_set_keys)

lemma map_of_accumulate:
  "distinct (map fst ws) \<Longrightarrow>
     map_of (accumulate f ws acc) h
       = (case map_of ws h of
            None \<Rightarrow> map_of acc h
          | Some w \<Rightarrow> Some (dict_get acc h 0 + f w))"
proof (induction f ws acc rule: accumulate.induct)
  case (1 scale deltas)
  then show ?case by simp
next
  case (2 scale hormone base_delta rest deltas)
  from "2.prems" have d: "distinct (map fst rest)" and n: "hormone \<notin> fst ` set rest"
    by auto
  from n have none: "map_of rest hormone = None"
    by (simp add: map_of_eq_None_iff)
  show ?case
  proof (cases "h = hormone")
    case True
    with "2.IH"[OF d] none show ?thesis
      by (simp add: map_of_dict_set)
  next
    case False
    with "2.IH"[OF d] show ?thesis
      by (simp add: map_of_dict_set dict_get_def split: option.splits)
  qed
qed

lemma accumulate_fresh:
  "distinct (map fst ws) \<Longrightarrow> fst ` set ws \<inter> fst ` set acc = {} \<Longrightarrow>
     accumulate f ws acc = acc @ map (\<lambda>(h, w). (h, 0 + f w)) ws"
proof (induction f ws acc rule: accumulate.induct)
  case (1 scale deltas)
  then show ?case by simp
next
  case (2 scale hormone base_delta rest deltas)
  from "2.prems" have fresh: "hormone \<notin> fst ` set deltas" by auto
  let ?d = "deltas @ [(hormone, 0 + scale base_delta)]"
  have step: "dict_set deltas hormone (dict_get deltas hormone 0 + scale base_delta) = ?d"
    by (simp add: dict_set_fresh[OF fresh] dict_get_fresh[OF fresh])
  from "2.prems" have "distinct (map fst rest)" "fst ` set rest \<inter> fst ` set ?d = {}"
    by auto
  from "2.IH"[unfolded step, OF this] show ?case
    by (simp add: step)
qed

lemma emotion_table_entries:
  "(k, ws) \<in> set EMOTION_HORMONE_MAP \<Longrightarrow>
     fst ` set ws \<subseteq> {''dopamine'', ''serotonin'', ''cortisol'', ''oxytocin''}
     \<and> distinct (map fst ws)"
  unfolding EMOTION_HORMONE_MAP_def by auto

lemma toxicity_table_entries:
  "(k, ws) \<in> set TOXICITY_HORMONE_MAP \<Longrightarrow>
     fst ` set ws \<subseteq> {''dopamine'', ''serotonin'', ''cortisol'', ''oxytocin''}
     \<and> distinct (map fst ws)"
  unfolding TOXICITY_HORMONE_MAP_def by auto

lemma hormone_deltas_analyze:
  "hormone_deltas (analyze_contextual_sentiment emotions toxicity_result overall_confidence)
     = fst (toxicity_adjustments (snd (toxicity_of toxicity_result))
              (fst (toxicity_of toxicity_result))
              (emotion_adjustments (fst (primary_of emotions overall_confidence))
                 (snd (primary_of emotions overall_confidence)) overall_confidence))"
  by (simp add: analyze_contextual_sentiment_def split: prod.splits)

lemma emotion_adjustments_keys:
  "fst ` set (fst (emotion_adjustments primary emo_score conf))
     \<subseteq> {''dopamine'', ''serotonin'', ''cortisol'', ''oxytocin''}"
proof (cases "map_of EMOTION_HORMONE_MAP primary")
  case None
  then show ?thesis by (simp add: emotion_adjustments_def)
next
  case (Some ws)
  then have "(primary, ws) \<in> set EMOTION_HORMONE_MAP" by (rule map_of_SomeD)
  from emotion_table_entries[OF this] Some show ?thesis
    by (simp add: emotion_adjustments_def accumulate_keys)
qed

lemma toxicity_adjustments_keys:
  "fst ` set (fst acc) \<subseteq> {''dopamine'', ''serotonin'', ''cortisol'', ''oxytocin''} \<Longrightarrow>
   fst ` set (fst (toxicity_adjustments s labels acc))
     \<subseteq> {''dopamine'', ''serotonin'', ''cortisol'', ''oxytocin''}"
proof (induction s labels acc rule: toxicity_adjustments.induct)
  case (1 s acc)
  then show ?case by simp
next
  case (2 s tox_label rest deltas reasons)
  show ?case
  proof (cases "map_of TOXICITY_HORMONE_MAP tox_label")
    case None
    with 2 show ?thesis by simp
  next
    case (Some ws)
    then have "(tox_label, ws) \<in> set TOXICITY_HORMONE_MAP" by (rule map_of_SomeD)
    from toxicity_table_entries[OF this] "2.prems"
    have "fst ` set (accumulate (\<lambda>base_delta. base_delta * s) ws deltas)
            \<subseteq> {''dopamine'', ''serotonin'', ''cortisol'', ''oxytocin''}"
      by (simp add: accumulate_keys)
    with "2.IH" Some show ?thesis by simp
  qed
qed

lemma rate_limited_updates_total:
  "fst ` set deltas \<subseteq> dom hormones \<Longrightarrow>
     \<exists>r. rate_limited_updates hormones deltas updated = Inr r"
proof (induction deltas arbitrary: updated)
  case Nil
  then show ?case by simp
next
  case (Cons p deltas)
  obtain k d where p: "p = (k, d)" by (cases p)
  with Cons.prems obtain cur where cur: "hormones k = Some cur" by auto
  from Cons.prems have "fst ` set deltas \<subseteq> dom hormones" by simp
  from Cons.IH[OF this] show ?case using p cur by (simp add: Let_def)
qed

text \<open>
  Claim C10. Every key of the delta map that \<open>analyze_contextual_sentiment\<close> returns is
  one of dopamine, serotonin, cortisol and oxytocin, the only hormone names of the two
  weight tables; so for a store that has these four keys the indexings
  \<open>hormones[hormone]\<close> and \<open>updated[hormone]\<close> do not fail and the update returns.
\<close>

theorem delta_keys_are_hormones:
  "fst ` set (hormone_deltas (analyze_contextual_sentiment emotions toxicity_result
                overall_confidence))
     \<subseteq> {''dopamine'', ''serotonin'', ''cortisol'', ''oxytocin''}
   \<and> ({''dopamine'', ''serotonin'', ''cortisol'', ''oxytocin''} \<subseteq> dom hormones \<longrightarrow>
        (\<exists>updated. apply_contextual_hormone_adjustments emotions toxicity_result
                      overall_confidence hormones = Inr updated))"
proof -
  let ?a = "analyze_contextual_sentiment emotions toxicity_result overall_confidence"
  have keys: "fst ` set (hormone_deltas ?a)
     \<subseteq> {''dopamine'', ''serotonin'', ''cortisol'', ''oxytocin''}"
    unfolding hormone_deltas_analyze
    by (rule toxicity_adjustments_keys) (rule emotion_adjustments_keys)
  have "\<exists>updated. adjust_levels ?a hormones = Inr updated"
    if "{''dopamine'', ''serotonin'', ''cortisol'', ''oxytocin''} \<subseteq> dom hormones"
  proof (cases "hormone_deltas ?a = []")
    case True
    then show ?thesis by (simp add: adjust_levels_def)
  next
    case False
    from keys that have "fst ` set (hormone_deltas ?a) \<subseteq> dom hormones" by (rule subset_trans)
    from rate_limited_updates_total[OF this] False show ?thesis
      by (simp add: adjust_levels_def)
  qed
  with keys show ?thesis
    unfolding apply_contextual_hormone_adjustments_def by blast
qed

lemma fear_without_store:
  "apply_contextual_hormone_adjustments [(''fear'', 1)] None 1 Map.empty
     = Inl (KeyError ''cortisol'')"
  by (simp add: apply_contextual_hormone_adjustments_def adjust_levels_def fear_deltas)

theorem delta_keys_are_hormones_witness:
  "{''dopamine'', ''serotonin'', ''cortisol'', ''oxytocin''} \<subseteq> dom reset_levels
   \<and> (\<exists>updated. apply_contextual_hormone_adjustments [(''fear'', 1)] None 1 reset_levels
         = Inr updated)
   \<and> apply_contextual_hormone_adjustments [(''fear'', 1)] None 1 Map.empty
       = Inl (KeyError ''cortisol'')"
proof -
  have d: "{''dopamine'', ''serotonin'', ''cortisol'', ''oxytocin''} \<subseteq> dom reset_levels"
    by (simp add: reset_levels_def)
  with delta_keys_are_hormones[of "[(''fear'', 1)]" None 1 reset_levels] fear_without_store
  show ?thesis by blast
qed


lemma toxicity_of_on:
  "is_toxic t \<and> score t > 0.5 \<Longrightarrow> toxicity_of (Some t) = ([lower (label t)], score t)"
  by (simp add: toxicity_of_def TOXICITY_THRESHOLD_def Let_def)

lemma toxicity_of_off:
  "\<not> (is_toxic t \<and> score t > 0.5) \<Longrightarrow> toxicity_of (Some t) = ([], 0)"
  by (simp add: toxicity_of_def TOXICITY_THRESHOLD_def Let_def)

lemma toxicity_adjustments_single:
  "fst (toxicity_adjustments s [tox_label] acc)
     = (case map_of TOXICITY_HORMONE_MAP tox_label of
          None \<Rightarrow> fst acc
        | Some tox_deltas \<Rightarrow> accumulate (\<lambda>base_delta. base_delta * s) tox_deltas (fst acc))"
  by (cases acc) (simp split: option.splits)

lemma toxicity_of_None: "toxicity_of None = ([], 0)"
  by (simp add: toxicity_of_def)

lemma toxicity_detected_analyze:
  "toxicity_detected (analyze_contextual_sentiment emotions toxicity_result overall_confidence)
     = fst (toxicity_of toxicity_result)"
  by (simp add: analyze_contextual_sentiment_def split: prod.splits)

lemma primary_emotion_analyze:
  "primary_emotion (analyze_contextual_sentiment emotions toxicity_result overall_confidence)
     = fst (primary_of emotions overall_confidence)"
  by (simp add: analyze_contextual_sentiment_def split: prod.splits)

lemma emotion_only_deltas:
  "hormone_deltas (analyze_contextual_sentiment emotions None overall_confidence)
     = fst (emotion_adjustments (fst (primary_of emotions overall_confidence))
              (snd (primary_of emotions overall_confidence)) overall_confidence)"
  by (simp add: hormone_deltas_analyze toxicity_of_None)

text \<open>
  Claim C7. The toxicity table has 7 entries. A toxicity result contributes to the delta
  map only when it is flagged toxic and its score is strictly above 0.5; then, if its
  lower-cased label is in the table, every weight of the entry is multiplied by the raw
  toxicity score and added to the delta that the emotion left for that hormone (0 when
  there is none), and the other deltas stay as they are. A toxicity label or a primary
  emotion that is in no table contributes nothing; the function has no failing branch.
\<close>

theorem toxicity_adds_onto_emotion_deltas:
  "length TOXICITY_HORMONE_MAP = 7
   \<and> (\<not> (is_toxic t \<and> score t > 0.5) \<longrightarrow>
        hormone_deltas (analyze_contextual_sentiment emotions (Some t) conf)
          = hormone_deltas (analyze_contextual_sentiment emotions None conf))
   \<and> (is_toxic t \<and> score t > 0.5 \<and> map_of TOXICITY_HORMONE_MAP (lower (label t)) = None \<longrightarrow>
        hormone_deltas (analyze_contextual_sentiment emotions (Some t) conf)
          = hormone_deltas (analyze_contextual_sentiment emotions None conf))
   \<and> (\<forall>ws h. is_toxic t \<and> score t > 0.5
          \<and> map_of TOXICITY_HORMONE_MAP (lower (label t)) = Some ws \<longrightarrow>
        map_of (hormone_deltas (analyze_contextual_sentiment emotions (Some t) conf)) h
          = (case map_of ws h of
               None \<Rightarrow> map_of (hormone_deltas (analyze_contextual_sentiment emotions None conf)) h
             | Some w \<Rightarrow>
                 Some (dict_get (hormone_deltas (analyze_contextual_sentiment emotions None conf)) h 0
                       + w * score t)))
   \<and> (map_of EMOTION_HORMONE_MAP
         (primary_emotion (analyze_contextual_sentiment emotions (Some t) conf)) = None \<longrightarrow>
        hormone_deltas (analyze_contextual_sentiment emotions None conf) = [])"
proof -
  let ?E = "hormone_deltas (analyze_contextual_sentiment emotions None conf)"
  let ?D = "hormone_deltas (analyze_contextual_sentiment emotions (Some t) conf)"
  have len: "length TOXICITY_HORMONE_MAP = 7"
    by (simp add: TOXICITY_HORMONE_MAP_def)
  have off: "?D = ?E" if "\<not> (is_toxic t \<and> score t > 0.5)"
    by (simp add: hormone_deltas_analyze toxicity_of_off[OF that] toxicity_of_None)
  have unmapped: "?D = ?E"
    if "is_toxic t \<and> score t > 0.5 \<and> map_of TOXICITY_HORMONE_MAP (lower (label t)) = None"
  proof -
    from that have on: "is_toxic t \<and> score t > 0.5"
      and none: "map_of TOXICITY_HORMONE_MAP (lower (label t)) = None" by simp_all
    show ?thesis
      by (simp add: hormone_deltas_analyze toxicity_of_on[OF on] toxicity_of_None
          toxicity_adjustments_single none)
  qed
  have mapped: "map_of ?D h
          = (case map_of ws h of None \<Rightarrow> map_of ?E h
             | Some w \<Rightarrow> Some (dict_get ?E h 0 + w * score t))"
    if a: "is_toxic t \<and> score t > 0.5 \<and> map_of TOXICITY_HORMONE_MAP (lower (label t)) = Some ws"
    for ws h
  proof -
    from a have "(lower (label t), ws) \<in> set TOXICITY_HORMONE_MAP"
      by (simp add: map_of_SomeD)
    then have d: "distinct (map fst ws)"
      using toxicity_table_entries by blast
    from a have on: "is_toxic t \<and> score t > 0.5"
      and some: "map_of TOXICITY_HORMONE_MAP (lower (label t)) = Some ws" by simp_all
    have "?D = accumulate (\<lambda>base_delta. base_delta * score t) ws ?E"
      by (simp add: hormone_deltas_analyze toxicity_of_on[OF on] toxicity_of_None
          toxicity_adjustments_single some)
    then show ?thesis
      by (simp add: map_of_accumulate[OF d])
  qed
  have no_emotion: "?E = []"
    if "map_of EMOTION_HORMONE_MAP
         (primary_emotion (analyze_contextual_sentiment emotions (Some t) conf)) = None"
    using that by (simp add: primary_emotion_analyze emotion_only_deltas emotion_adjustments_def)
  from len off unmapped mapped no_emotion show ?thesis by blast
qed


lemmas analyze_eval =
  analyze_contextual_sentiment_def primary_of_def toxicity_of_def emotion_adjustments_def
  EMOTION_HORMONE_MAP_def TOXICITY_HORMONE_MAP_def lower_def lower_char_def
  CONFIDENCE_THRESHOLD_def TOXICITY_THRESHOLD_def dict_get_def dict_set_def Let_def

lemma fear_and_toxic_deltas:
  "hormone_deltas (analyze_contextual_sentiment [(''fear'', 1)]
       (Some \<lparr>is_toxic = True, score = 0.9, label = ''TOXIC''\<rparr>) 1)
     = [(''cortisol'', 0.285), (''serotonin'', - 0.132)]"
  by (simp add: analyze_eval)

lemma fear_and_low_toxic_deltas:
  "hormone_deltas (analyze_contextual_sentiment [(''fear'', 1)]
       (Some \<lparr>is_toxic = True, score = 0.5, label = ''TOXIC''\<rparr>) 1)
     = [(''cortisol'', 0.15), (''serotonin'', - 0.06)]"
  by (simp add: analyze_eval)

lemma fear_and_unmapped_toxic_deltas:
  "hormone_deltas (analyze_contextual_sentiment [(''fear'', 1)]
       (Some \<lparr>is_toxic = True, score = 0.9, label = ''spam''\<rparr>) 1)
     = [(''cortisol'', 0.15), (''serotonin'', - 0.06)]"
  by (simp add: analyze_eval)

lemma unmapped_emotion_deltas:
  "hormone_deltas (analyze_contextual_sentiment [(''boredom'', 1)] None 1) = []"
  by (simp add: analyze_eval)

lemma toxic_label_lookup:
  "map_of TOXICITY_HORMONE_MAP (lower ''TOXIC'') = Some [(''cortisol'', 0.15), (''serotonin'', - 0.08)]"
  by (simp add: TOXICITY_HORMONE_MAP_def lower_def lower_char_def)

theorem toxicity_adds_onto_emotion_deltas_witness:
  "map_of TOXICITY_HORMONE_MAP (lower ''TOXIC'')
     = Some [(''cortisol'', 0.15), (''serotonin'', - 0.08)]
   \<and> hormone_deltas (analyze_contextual_sentiment [(''fear'', 1)] None 1)
       = [(''cortisol'', 0.15), (''serotonin'', - 0.06)]
   \<and> map_of (hormone_deltas (analyze_contextual_sentiment [(''fear'', 1)]
          (Some \<lparr>is_toxic = True, score = 0.9, label = ''TOXIC''\<rparr>) 1)) ''cortisol''
       = Some (0.15 + 0.15 * 0.9)
   \<and> hormone_deltas (analyze_contextual_sentiment [(''fear'', 1)]
          (Some \<lparr>is_toxic = True, score = 0.9, label = ''TOXIC''\<rparr>) 1)
       = [(''cortisol'', 0.285), (''serotonin'', - 0.132)]
   \<and> hormone_deltas (analyze_contextual_sentiment [(''fear'', 1)]
          (Some \<lparr>is_toxic = True, score = 0.5, label = ''TOXIC''\<rparr>) 1)
       = [(''cortisol'', 0.15), (''serotonin'', - 0.06)]
   \<and> hormone_deltas (analyze_contextual_sentiment [(''fear'', 1)]
          (Some \<lparr>is_toxic = True, score = 0.9, label = ''spam''\<rparr>) 1)
       = [(''cortisol'', 0.15), (''serotonin'', - 0.06)]
   \<and> hormone_deltas (analyze_contextual_sentiment [(''boredom'', 1)] None 1) = []"
proof -
  let ?t = "\<lparr>is_toxic = True, score = 0.9, label = ''TOXIC''\<rparr>"
  note inst = toxicity_adds_onto_emotion_deltas[of ?t "[(''fear'', 1)]" 1]
  have pre: "is_toxic ?t \<and> score ?t > 0.5
      \<and> map_of TOXICITY_HORMONE_MAP (lower (label ?t))
          = Some [(''cortisol'', 0.15), (''serotonin'', - 0.08)]"
    using toxic_label_lookup by simp
  from inst pre
  have "map_of (hormone_deltas (analyze_contextual_sentiment [(''fear'', 1)] (Some ?t) 1)) ''cortisol''
      = (case map_of [(''cortisol'', 0.15), (''serotonin'', - 0.08)] ''cortisol'' of
           None \<Rightarrow> map_of (hormone_deltas (analyze_contextual_sentiment [(''fear'', 1)] None 1)) ''cortisol''
         | Some w \<Rightarrow>
             Some (dict_get (hormone_deltas (analyze_contextual_sentiment [(''fear'', 1)] None 1))
                     ''cortisol'' 0 + w * score ?t))"
    by blast
  then have "map_of (hormone_deltas (analyze_contextual_sentiment [(''fear'', 1)] (Some ?t) 1)) ''cortisol''
      = Some (0.15 + 0.15 * 0.9)"
    by (simp add: fear_deltas dict_get_def)
  with toxic_label_lookup fear_deltas fear_and_toxic_deltas fear_and_low_toxic_deltas
    fear_and_unmapped_toxic_deltas unmapped_emotion_deltas
  show ?thesis by blast
qed

subsection \<open>The emotion table\<close>

text \<open>
  Claim C4 says that the emotion table has exactly 22 entries. It has 24.
\<close>

theorem emotion_table_size_counterexample: "length EMOTION_HORMONE_MAP \<noteq> 22"
  by (simp add: EMOTION_HORMONE_MAP_def)

lemma emotion_table_distinct: "distinct (map fst EMOTION_HORMONE_MAP)"
  by (simp add: EMOTION_HORMONE_MAP_def)

text \<open>
  Claim C4, amended. The emotion table has exactly 24 entries with distinct labels, joy
  maps to dopamine +0.12 and serotonin +0.08, fear maps to cortisol +0.15 and serotonin
  -0.06; and when the confidence is above 0.3 and the lower-cased first label is in the
  table, each weight of its entry, multiplied by the emotion score and the overall
  confidence, is the delta of its hormone (when no toxicity is detected, these are all
  the deltas).
\<close>

theorem emotion_table_and_scaling:
  "length EMOTION_HORMONE_MAP = 24
   \<and> distinct (map fst EMOTION_HORMONE_MAP)
   \<and> map_of EMOTION_HORMONE_MAP ''joy'' = Some [(''dopamine'', 0.12), (''serotonin'', 0.08)]
   \<and> map_of EMOTION_HORMONE_MAP ''fear'' = Some [(''cortisol'', 0.15), (''serotonin'', - 0.06)]
   \<and> (\<forall>ws. conf > 0.3 \<and> map_of EMOTION_HORMONE_MAP (lower l) = Some ws
          \<and> toxicity_detected (analyze_contextual_sentiment ((l, s) # others) toxicity_result conf) = []
        \<longrightarrow> hormone_deltas (analyze_contextual_sentiment ((l, s) # others) toxicity_result conf)
              = map (\<lambda>(hormone, base_delta). (hormone, base_delta * s * conf)) ws)"
proof -
  have scaling: "hormone_deltas (analyze_contextual_sentiment ((l, s) # others) toxicity_result conf)
              = map (\<lambda>(hormone, base_delta). (hormone, base_delta * s * conf)) ws"
    if a: "conf > 0.3 \<and> map_of EMOTION_HORMONE_MAP (lower l) = Some ws
          \<and> toxicity_detected (analyze_contextual_sentiment ((l, s) # others) toxicity_result conf) = []"
    for ws
  proof -
    from a have c: "conf > 0.3" and ws: "map_of EMOTION_HORMONE_MAP (lower l) = Some ws"
      and nt: "fst (toxicity_of toxicity_result) = []"
      by (simp_all add: toxicity_detected_analyze)
    from c have p: "primary_of ((l, s) # others) conf = (lower l, s)"
      by (simp add: primary_of_def CONFIDENCE_THRESHOLD_def)
    from ws have "(lower l, ws) \<in> set EMOTION_HORMONE_MAP" by (rule map_of_SomeD)
    then have d: "distinct (map fst ws)" using emotion_table_entries by blast
    have "accumulate (\<lambda>base_delta. base_delta * s * conf) ws []
            = [] @ map (\<lambda>(h, w). (h, 0 + w * s * conf)) ws"
      by (rule accumulate_fresh[OF d]) simp
    then show ?thesis
      by (simp add: hormone_deltas_analyze nt p emotion_adjustments_def ws)
  qed
  have "length EMOTION_HORMONE_MAP = 24"
    by (simp add: EMOTION_HORMONE_MAP_def)
  moreover have "map_of EMOTION_HORMONE_MAP ''joy'' = Some [(''dopamine'', 0.12), (''serotonin'', 0.08)]"
    by (simp add: EMOTION_HORMONE_MAP_def)
  moreover have "map_of EMOTION_HORMONE_MAP ''fear'' = Some [(''cortisol'', 0.15), (''serotonin'', - 0.06)]"
    by (simp add: EMOTION_HORMONE_MAP_def)
  ultimately show ?thesis using emotion_table_distinct scaling by blast
qed


lemma joy_lookup:
  "map_of EMOTION_HORMONE_MAP (lower ''Joy'') = Some [(''dopamine'', 0.12), (''serotonin'', 0.08)]"
  by (simp add: EMOTION_HORMONE_MAP_def lower_def lower_char_def)

lemma joy_not_toxic:
  "toxicity_detected (analyze_contextual_sentiment [(''Joy'', 0.5)] None 0.8) = []"
  by (simp add: toxicity_detected_analyze toxicity_of_None)

theorem emotion_table_and_scaling_witness:
  "(0.8 :: real) > 0.3
   \<and> map_of EMOTION_HORMONE_MAP (lower ''Joy'') = Some [(''dopamine'', 0.12), (''serotonin'', 0.08)]
   \<and> toxicity_detected (analyze_contextual_sentiment [(''Joy'', 0.5)] None 0.8) = []
   \<and> hormone_deltas (analyze_contextual_sentiment [(''Joy'', 0.5)] None 0.8)
       = [(''dopamine'', 0.048), (''serotonin'', 0.032)]"
proof -
  have c: "(0.8 :: real) > 0.3" by simp
  from emotion_table_and_scaling[of "0.8" "''Joy''" "0.5" "[]" None] c joy_lookup joy_not_toxic
  have "hormone_deltas (analyze_contextual_sentiment [(''Joy'', 0.5)] None 0.8)
       = map (\<lambda>(hormone, base_delta). (hormone, base_delta * 0.5 * 0.8))
           [(''dopamine'', 0.12), (''serotonin'', 0.08)]"
    by blast
  then have "hormone_deltas (analyze_contextual_sentiment [(''Joy'', 0.5)] None 0.8)
       = [(''dopamine'', 0.048), (''serotonin'', 0.032)]"
    by simp
  with c joy_lookup joy_not_toxic show ?thesis by blast
qed

section \<open>Properties of the mood classification\<close>

lemma max_by_score_first_max:
  "\<exists>pre post. best # xs = pre @ max_by_score best xs # post
      \<and> (\<forall>y\<in>set pre. snd y < snd (max_by_score best xs))
      \<and> (\<forall>y\<in>set post. snd y \<le> snd (max_by_score best xs))"
proof (induction xs arbitrary: best)
  case Nil
  show ?case
    apply (rule exI[of _ "[]"])
    apply (rule exI[of _ "[]"])
    apply simp
    done
next
  case (Cons x xs)
  show ?case
  proof (cases "snd x > snd best")
    case True
    define r where "r = max_by_score x xs"
    have m: "max_by_score best (x # xs) = r" using True by (simp add: r_def)
    from Cons.IH[of x] have "\<exists>pre post. x # xs = pre @ r # post
      \<and> (\<forall>y\<in>set pre. snd y < snd r) \<and> (\<forall>y\<in>set post. snd y \<le> snd r)"
      unfolding r_def .
    then obtain pre post where
      d: "x # xs = pre @ r # post" and
      lt: "\<forall>y\<in>set pre. snd y < snd r" and le: "\<forall>y\<in>set post. snd y \<le> snd r"
      by (elim exE conjE)
    have "x \<in> set (x # xs)" by simp
    then have "x \<in> set (pre @ r # post)" by (simp only: d)
    then have "x \<in> set pre \<or> x = r \<or> x \<in> set post" by auto
    then have "snd x \<le> snd r"
    proof (elim disjE)
      assume "x \<in> set pre"
      with lt have "snd x < snd r" by blast
      then show ?thesis by simp
    next
      assume "x = r"
      then show ?thesis by simp
    next
      assume "x \<in> set post"
      with le show ?thesis by blast
    qed
    with True have b: "snd best < snd r" by linarith
    show ?thesis
      unfolding m
      apply (rule exI[of _ "best # pre"])
      apply (rule exI[of _ post])
      apply (simp add: d lt le b)
      done
  next
    case False
    define r where "r = max_by_score best xs"
    have m: "max_by_score best (x # xs) = r" using False by (simp add: r_def)
    from Cons.IH[of best] have "\<exists>pre post. best # xs = pre @ r # post
      \<and> (\<forall>y\<in>set pre. snd y < snd r) \<and> (\<forall>y\<in>set post. snd y \<le> snd r)"
      unfolding r_def .
    then obtain pre post where
      d: "best # xs = pre @ r # post" and
      lt: "\<forall>y\<in>set pre. snd y < snd r" and le: "\<forall>y\<in>set post. snd y \<le> snd r"
      by (elim exE conjE)
    show ?thesis
    proof (cases pre)
      case Nil
      from d Nil have rb: "best = r" and p: "xs = post" by simp_all
      from False rb have xr: "snd x \<le> snd r" by simp
      show ?thesis
        unfolding m
        apply (rule exI[of _ "[]"])
        apply (rule exI[of _ "x # post"])
        apply (simp add: rb[symmetric] p[symmetric])
        apply (insert xr le)
        apply (simp add: rb[symmetric] p[symmetric])
        done
    next
      case (Cons q pre')
      from d Cons have qb: "q = best" and xs: "xs = pre' @ r # post" by simp_all
      from lt Cons qb have "snd best < snd r" by simp
      with False have xr: "snd x < snd r" by linarith
      show ?thesis
        unfolding m
        apply (rule exI[of _ "best # x # pre'"])
        apply (rule exI[of _ post])
        apply (insert lt le xr)
        apply (simp add: xs Cons qb)
        done
    qed
  qed
qed


lemma calculate_mood_decomposition:
  assumes "candidates hl \<noteq> []"
  shows "\<exists>pre name s post. candidates hl = pre @ (name, s) # post
           \<and> (\<forall>y\<in>set pre. snd y < s) \<and> (\<forall>y\<in>set post. snd y \<le> s)
           \<and> calculate_mood_from_hormones hl = (name, min 1 (max 0.1 s))"
proof -
  from assms obtain first others where c: "candidates hl = first # others"
    by (cases "candidates hl") simp_all
  define r where "r = max_by_score first others"
  from max_by_score_first_max[of first others] obtain pre post where
    d: "first # others = pre @ r # post" and
    lt: "\<forall>y\<in>set pre. snd y < snd r" and le: "\<forall>y\<in>set post. snd y \<le> snd r"
    unfolding r_def by (elim exE conjE)
  have calc: "calculate_mood_from_hormones hl = (fst r, min 1 (max 0.1 (snd r)))"
    by (simp add: calculate_mood_from_hormones_def c r_def Let_def)
  have "candidates hl = pre @ (fst r, snd r) # post" using c d by simp
  with lt le calc show ?thesis by blast
qed

lemma baseline_candidates: "mood_scores 0 0 0 0 = []"
  by (simp add: mood_scores_def)

text \<open>
  Claim C2. With no gated candidate the result is exactly (neutral, 0.5). Otherwise the
  result is a candidate whose score no other candidate exceeds, the first such in the
  order of insertion, with its score clamped to [0.1, 1.0] as the intensity; so a
  candidate whose score is strictly above all others is the one selected. For levels
  that are all 0.5 (or missing) no gate fires and the result is (neutral, 0.5).
\<close>

theorem mood_selection:
  "(candidates hl = [] \<longrightarrow> calculate_mood_from_hormones hl = (''neutral'', 0.5))
   \<and> (candidates hl \<noteq> [] \<longrightarrow>
        (\<exists>pre name s post. candidates hl = pre @ (name, s) # post
           \<and> (\<forall>y\<in>set pre. snd y < s) \<and> (\<forall>y\<in>set post. snd y \<le> s)
           \<and> calculate_mood_from_hormones hl = (name, min 1 (max 0.1 s))))
   \<and> (\<forall>name s. (name, s) \<in> set (candidates hl)
          \<and> (\<forall>y\<in>set (candidates hl). y \<noteq> (name, s) \<longrightarrow> snd y < s) \<longrightarrow>
        calculate_mood_from_hormones hl = (name, min 1 (max 0.1 s)))
   \<and> (levels_get hl ''dopamine'' 0.5 = 0.5 \<and> levels_get hl ''serotonin'' 0.5 = 0.5
        \<and> levels_get hl ''cortisol'' 0.5 = 0.5 \<and> levels_get hl ''oxytocin'' 0.5 = 0.5 \<longrightarrow>
        calculate_mood_from_hormones hl = (''neutral'', 0.5))"
proof -
  have none: "calculate_mood_from_hormones hl = (''neutral'', 0.5)" if "candidates hl = []"
    using that by (simp add: calculate_mood_from_hormones_def)
  have strict: "calculate_mood_from_hormones hl = (name, min 1 (max 0.1 s))"
    if a: "(name, s) \<in> set (candidates hl)
          \<and> (\<forall>y\<in>set (candidates hl). y \<noteq> (name, s) \<longrightarrow> snd y < s)"
    for name s
  proof -
    from a have ne: "candidates hl \<noteq> []" by auto
    from calculate_mood_decomposition[OF ne] obtain pre n' s' post where
      d: "candidates hl = pre @ (n', s') # post" and
      lt: "\<forall>y\<in>set pre. snd y < s'" and le: "\<forall>y\<in>set post. snd y \<le> s'" and
      calc: "calculate_mood_from_hormones hl = (n', min 1 (max 0.1 s'))"
      by (elim exE conjE)
    have "(n', s') = (name, s)"
    proof (rule ccontr)
      assume neq: "(n', s') \<noteq> (name, s)"
      have "(n', s') \<in> set (candidates hl)" by (simp add: d)
      with a neq have below: "s' < s" by fastforce
      from a have "(name, s) \<in> set pre \<or> (name, s) = (n', s') \<or> (name, s) \<in> set post"
        by (auto simp: d)
      then show False
      proof (elim disjE)
        assume "(name, s) \<in> set pre"
        with lt have "s < s'" by fastforce
        with below show False by simp
      next
        assume "(name, s) = (n', s')"
        with neq show False by simp
      next
        assume "(name, s) \<in> set post"
        with le have "s \<le> s'" by fastforce
        with below show False by simp
      qed
    qed
    with calc show ?thesis by simp
  qed
  have baseline: "calculate_mood_from_hormones hl = (''neutral'', 0.5)"
    if "levels_get hl ''dopamine'' 0.5 = 0.5 \<and> levels_get hl ''serotonin'' 0.5 = 0.5
        \<and> levels_get hl ''cortisol'' 0.5 = 0.5 \<and> levels_get hl ''oxytocin'' 0.5 = 0.5"
  proof -
    from that have l: "levels_get hl ''dopamine'' 0.5 = 0.5" "levels_get hl ''serotonin'' 0.5 = 0.5"
      "levels_get hl ''cortisol'' 0.5 = 0.5" "levels_get hl ''oxytocin'' 0.5 = 0.5"
      by blast+
    have "candidates hl = mood_scores (0.5 - 0.5) (0.5 - 0.5) (0.5 - 0.5) (0.5 - 0.5)"
      unfolding candidates_def Let_def l ..
    then have "candidates hl = []" by (simp add: baseline_candidates)
    then show ?thesis by (rule none)
  qed
  from none calculate_mood_decomposition strict baseline show ?thesis by blast
qed

lemma high_stress_candidates:
  "candidates high_stress
     = [(''anxious'', 0.51), (''restless'', 0.42), (''stressed'', 0.36), (''depressed'', 0.46),
        (''conflicted'', 0.32)]"
  by (simp add: candidates_def levels_get_def high_stress_def mood_scores_def Let_def)

lemma reset_candidates: "candidates reset_levels = []"
  by (simp add: candidates_def levels_get_def reset_levels_def mood_scores_def Let_def)

theorem mood_selection_witness:
  "candidates reset_levels = []
   \<and> calculate_mood_from_hormones reset_levels = (''neutral'', 0.5)
   \<and> candidates high_stress
       = [(''anxious'', 0.51), (''restless'', 0.42), (''stressed'', 0.36), (''depressed'', 0.46),
          (''conflicted'', 0.32)]
   \<and> calculate_mood_from_hormones high_stress = (''anxious'', 0.51)"
proof -
  from mood_selection[of reset_levels] reset_candidates
  have "calculate_mood_from_hormones reset_levels = (''neutral'', 0.5)" by blast
  moreover have "(''anxious'', 0.51) \<in> set (candidates high_stress)
      \<and> (\<forall>y\<in>set (candidates high_stress). y \<noteq> (''anxious'', 0.51) \<longrightarrow> snd y < 0.51)"
    by (simp add: high_stress_candidates)
  with mood_selection[of high_stress]
  have "calculate_mood_from_hormones high_stress = (''anxious'', min 1 (max 0.1 0.51))"
    by blast
  then have "calculate_mood_from_hormones high_stress = (''anxious'', 0.51)" by simp
  ultimately show ?thesis using reset_candidates high_stress_candidates by blast
qed

section \<open>Properties of the mood history\<close>

lemma keep_last_100_length: "length (keep_last_100 xs) \<le> 100"
  by (simp add: keep_last_100_def)

lemma keep_last_100_suffix: "suffix (keep_last_100 xs) xs"
  by (simp add: keep_last_100_def suffix_drop)

lemma keep_last_100_short: "length xs \<le> 100 \<Longrightarrow> keep_last_100 xs = xs"
  by (simp add: keep_last_100_def)

lemma keep_last_100_append: "keep_last_100 (keep_last_100 xs @ ys) = keep_last_100 (xs @ ys)"
  by (auto simp: keep_last_100_def add.commute)

lemma write_json_cases:
  "write_json outcome doc file
     = (case outcome of Written \<Rightarrow> (Document doc, True)
        | OpenFailed \<Rightarrow> (file, False)
        | DumpFailed \<Rightarrow> (Unparsable, False))"
  by (cases outcome) simp_all

lemma entries_of_simps:
  "entries_of Missing = []" "entries_of Unparsable = []"
  "entries_of (Document (JList h)) = h" "entries_of (Document JOther) = []"
  by (simp_all add: entries_of_def)

lemma load_mood_history_entries:
  "entries_of (fst (load_mood_history env hfile)) = entries_of hfile"
  by (cases hfile; cases "history_init env")
     (simp_all add: load_mood_history_def entries_of_simps)

lemma load_mood_history_value:
  "snd (load_mood_history env hfile) = JList h \<Longrightarrow> h = entries_of hfile \<or> h = []"
  by (cases hfile) (auto simp: load_mood_history_def entries_of_simps split: if_splits)

lemma load_mood_history_readable:
  "history_readable env \<Longrightarrow> hfile \<noteq> Document JOther \<Longrightarrow>
     snd (load_mood_history env hfile) = JList (entries_of hfile)"
proof (cases hfile)
  case Missing
  then show ?thesis by (simp add: load_mood_history_def entries_of_simps)
next
  case Unparsable
  then show ?thesis by (simp add: load_mood_history_def entries_of_simps)
next
  case (Document doc)
  assume "history_readable env" "hfile \<noteq> Document JOther"
  with Document show ?thesis
    by (cases doc) (simp_all add: load_mood_history_def entries_of_simps)
qed

lemma save_mood_history_entries:
  "entries_of (save_mood_history env (JList h) hfile)
     = (case history_write env of Written \<Rightarrow> h | OpenFailed \<Rightarrow> entries_of hfile | DumpFailed \<Rightarrow> [])"
  by (cases "history_write env") (simp_all add: save_mood_history_def entries_of_simps)


lemma update_mood_write_failed:
  assumes "mood_write env \<noteq> Written"
  shows "mood_history (fst (update_mood env m i r c files)) = mood_history files
       \<and> snd (update_mood env m i r c files) = None"
  using assms by (cases "mood_write env") (simp_all add: update_mood_def Let_def)

lemma update_mood_written:
  assumes "mood_write env = Written"
  shows "mood_history (fst (update_mood env m i r c files))
           = (case snd (load_mood_history env (mood_history files)) of
                JOther \<Rightarrow> fst (load_mood_history env (mood_history files))
              | JList h \<Rightarrow>
                  save_mood_history env
                    (JList (keep_last_100
                       (h @ [new_history_entry env m i r (context_of env m i c)])))
                    (fst (load_mood_history env (mood_history files))))"
    and "snd (update_mood env m i r c files)
           = (case snd (load_mood_history env (mood_history files)) of
                JOther \<Rightarrow> Some AttributeError
              | JList h \<Rightarrow> None)"
  using assms
  by (simp_all add: update_mood_def Let_def split: prod.splits history_json.splits)

lemma update_mood_ledger_cases:
  "ledger (fst (update_mood env m i r c files))
     \<in> {ledger files, [],
        keep_last_100 (ledger files @ [new_history_entry env m i r (context_of env m i c)]),
        [new_history_entry env m i r (context_of env m i c)]}"
proof (cases "mood_write env = Written")
  case False
  from update_mood_write_failed[OF False] show ?thesis by (simp add: ledger_def)
next
  case True
  define e where "e = new_history_entry env m i r (context_of env m i c)"
  define loaded where "loaded = snd (load_mood_history env (mood_history files))"
  define hfile where "hfile = fst (load_mood_history env (mood_history files))"
  have same: "entries_of hfile = ledger files"
    by (simp add: hfile_def ledger_def load_mood_history_entries)
  show ?thesis
  proof (cases loaded)
    case JOther
    with update_mood_written(1)[OF True, of m i r c files]
    have "mood_history (fst (update_mood env m i r c files)) = hfile"
      by (simp add: loaded_def hfile_def)
    then show ?thesis by (simp add: ledger_def same[unfolded ledger_def])
  next
    case (JList h)
    with update_mood_written(1)[OF True, of m i r c files]
    have u: "mood_history (fst (update_mood env m i r c files))
        = save_mood_history env (JList (keep_last_100 (h @ [e]))) hfile"
      by (simp add: loaded_def hfile_def e_def)
    from JList have "h = ledger files \<or> h = []"
      using load_mood_history_value[of env "mood_history files" h]
      by (simp add: loaded_def ledger_def)
    then have k: "keep_last_100 (h @ [e]) = keep_last_100 (ledger files @ [e])
        \<or> keep_last_100 (h @ [e]) = [e]"
      by (auto simp: keep_last_100_def)
    have "ledger (fst (update_mood env m i r c files))
        = (case history_write env of
             Written \<Rightarrow> keep_last_100 (h @ [e])
           | OpenFailed \<Rightarrow> ledger files
           | DumpFailed \<Rightarrow> [])"
      by (cases "history_write env")
         (simp_all add: ledger_def[of "fst (update_mood env m i r c files)"] u
            save_mood_history_entries same)
    with k show ?thesis
      unfolding e_def[symmetric] by (cases "history_write env") auto
  qed
qed

lemma update_mood_ledger_length:
  assumes "length (ledger files) \<le> 100"
  shows "length (ledger (fst (update_mood env m i r c files))) \<le> 100"
proof -
  define e where "e = new_history_entry env m i r (context_of env m i c)"
  from update_mood_ledger_cases[of env m i r c files]
  have "ledger (fst (update_mood env m i r c files)) = ledger files
      \<or> ledger (fst (update_mood env m i r c files)) = []
      \<or> ledger (fst (update_mood env m i r c files)) = keep_last_100 (ledger files @ [e])
      \<or> ledger (fst (update_mood env m i r c files)) = [e]"
    unfolding e_def by blast
  then show ?thesis
    using assms keep_last_100_length[of "ledger files @ [e]"] by (elim disjE) simp_all
qed

lemma update_mood_ledger_subseq:
  "subseq (ledger (fst (update_mood env m i r c files)))
     (ledger files @ [new_history_entry env m i r (context_of env m i c)])"
proof -
  define e where "e = new_history_entry env m i r (context_of env m i c)"
  from update_mood_ledger_cases[of env m i r c files]
  have "ledger (fst (update_mood env m i r c files)) = ledger files
      \<or> ledger (fst (update_mood env m i r c files)) = []
      \<or> ledger (fst (update_mood env m i r c files)) = keep_last_100 (ledger files @ [e])
      \<or> ledger (fst (update_mood env m i r c files)) = [e]"
    unfolding e_def by blast
  then have "subseq (ledger (fst (update_mood env m i r c files))) (ledger files @ [e])"
  proof (elim disjE)
    assume "ledger (fst (update_mood env m i r c files)) = ledger files"
    then show ?thesis by (simp add: prefix_imp_subseq)
  next
    assume "ledger (fst (update_mood env m i r c files)) = []"
    then show ?thesis by simp
  next
    assume "ledger (fst (update_mood env m i r c files)) = keep_last_100 (ledger files @ [e])"
    moreover have "subseq (keep_last_100 (ledger files @ [e])) (ledger files @ [e])"
      by (rule suffix_imp_subseq) (rule keep_last_100_suffix)
    ultimately show ?thesis by simp
  next
    assume "ledger (fst (update_mood env m i r c files)) = [e]"
    then show ?thesis by (simp add: subseq_singleton_left)
  qed
  then show ?thesis by (simp add: e_def)
qed

lemma update_mood_success:
  assumes "mood_write env = Written" and "history_write env = Written"
    and "history_readable env" and "mood_history files \<noteq> Document JOther"
  shows "mood_history (fst (update_mood env m i r c files))
           = Document (JList (keep_last_100
               (ledger files @ [new_history_entry env m i r (context_of env m i c)])))
       \<and> snd (update_mood env m i r c files) = None"
proof -
  have l: "snd (load_mood_history env (mood_history files)) = JList (ledger files)"
    using load_mood_history_readable[OF assms(3,4)] by (simp add: ledger_def)
  from update_mood_written[OF assms(1), of m i r c files] l assms(2)
  show ?thesis by (simp add: save_mood_history_def)
qed


lemma keep_last_100_snoc:
  "keep_last_100 (xs @ [e])
     = (if length xs \<ge> 100 then drop (length xs - 99) xs @ [e] else xs @ [e])"
  by (auto simp: keep_last_100_def)

lemma run_calls_length:
  "length (ledger files) \<le> 100 \<Longrightarrow> length (ledger (run_calls cs files)) \<le> 100"
proof (induction cs arbitrary: files)
  case Nil
  then show ?case by simp
next
  case (Cons c cs)
  have "length (ledger (fst (run_call c files))) \<le> 100"
    unfolding run_call_def by (rule update_mood_ledger_length[OF Cons.prems])
  from Cons.IH[OF this] show ?case by simp
qed

lemma run_calls_subseq:
  "subseq (ledger (run_calls cs files)) (ledger files @ map entry_of_call cs)"
proof (induction cs arbitrary: files)
  case Nil
  show ?case by simp
next
  case (Cons c cs)
  have one: "subseq (ledger (fst (run_call c files))) (ledger files @ [entry_of_call c])"
    unfolding run_call_def entry_of_call_def by (rule update_mood_ledger_subseq)
  have "subseq (ledger (fst (run_call c files)) @ map entry_of_call cs)
          ((ledger files @ [entry_of_call c]) @ map entry_of_call cs)"
    using one by (rule list_emb_append_mono) simp
  with Cons.IH[of "fst (run_call c files)"]
  have "subseq (ledger (run_calls cs (fst (run_call c files))))
          ((ledger files @ [entry_of_call c]) @ map entry_of_call cs)"
    by (rule subseq_order.trans)
  then show ?case by simp
qed

lemma run_calls_success:
  "\<forall>c\<in>set cs. all_written c \<Longrightarrow> mood_history files \<noteq> Document JOther \<Longrightarrow>
   length (ledger files) \<le> 100 \<Longrightarrow>
     ledger (run_calls cs files) = keep_last_100 (ledger files @ map entry_of_call cs)"
proof (induction cs arbitrary: files)
  case Nil
  then show ?case by (simp add: keep_last_100_short)
next
  case (Cons c cs)
  from Cons.prems(1) have w: "mood_write (call_env c) = Written"
    "history_write (call_env c) = Written" "history_readable (call_env c)"
    by (simp_all add: all_written_def)
  define files1 where "files1 = fst (run_call c files)"
  from update_mood_success[OF w Cons.prems(2)]
  have h1: "mood_history files1
      = Document (JList (keep_last_100 (ledger files @ [entry_of_call c])))"
    by (simp add: files1_def run_call_def entry_of_call_def)
  then have l1: "ledger files1 = keep_last_100 (ledger files @ [entry_of_call c])"
    by (simp add: ledger_def entries_of_simps)
  have "ledger (run_calls cs files1) = keep_last_100 (ledger files1 @ map entry_of_call cs)"
  proof (rule Cons.IH)
    show "\<forall>c\<in>set cs. all_written c" using Cons.prems(1) by simp
    show "mood_history files1 \<noteq> Document JOther" by (simp add: h1)
    show "length (ledger files1) \<le> 100" by (simp add: l1 keep_last_100_length)
  qed
  then show ?case
    by (simp add: files1_def[symmetric] l1 keep_last_100_append)
qed


text \<open>
  Claim C8. \<open>load_mood_history\<close> returns an empty list when the history file is missing
  or not parsable. A call of \<open>update_mood\<close> whose file operations succeed appends
  exactly one entry and keeps the most recent 100 entries, dropping the oldest first.
  Whatever the outcomes of the file operations, a ledger of at most 100 entries has at
  most 100 entries after a call and after any sequence of calls, and its entries are in
  the order in which they were appended: the ledger is a subsequence of the old entries
  followed by the new ones.
\<close>

theorem mood_history_bounded_and_ordered:
  "(hfile = Missing \<or> hfile = Unparsable \<longrightarrow> snd (load_mood_history env hfile) = JList [])
   \<and> (mood_write env = Written \<and> history_write env = Written \<and> history_readable env
        \<and> mood_history files \<noteq> Document JOther \<longrightarrow>
        snd (update_mood env m i r c files) = None
        \<and> ledger (fst (update_mood env m i r c files))
            = keep_last_100
                (ledger files @ [new_history_entry env m i r (context_of env m i c)]))
   \<and> keep_last_100 (ledger files @ [e])
       = (if length (ledger files) \<ge> 100
          then drop (length (ledger files) - 99) (ledger files) @ [e]
          else ledger files @ [e])
   \<and> length (keep_last_100 (ledger files @ [e])) \<le> 100
   \<and> (length (ledger files) \<le> 100 \<longrightarrow>
        length (ledger (fst (update_mood env m i r c files))) \<le> 100)
   \<and> subseq (ledger (fst (update_mood env m i r c files)))
        (ledger files @ [new_history_entry env m i r (context_of env m i c)])
   \<and> (length (ledger files) \<le> 100 \<longrightarrow> length (ledger (run_calls cs files)) \<le> 100)
   \<and> subseq (ledger (run_calls cs files)) (ledger files @ map entry_of_call cs)
   \<and> ((\<forall>k\<in>set cs. all_written k) \<and> mood_history files \<noteq> Document JOther
        \<and> length (ledger files) \<le> 100 \<longrightarrow>
        ledger (run_calls cs files) = keep_last_100 (ledger files @ map entry_of_call cs))"
proof -
  have load: "snd (load_mood_history env hfile) = JList []"
    if "hfile = Missing \<or> hfile = Unparsable"
    using that by (auto simp: load_mood_history_def)
  have one: "snd (update_mood env m i r c files) = None
        \<and> ledger (fst (update_mood env m i r c files))
            = keep_last_100
                (ledger files @ [new_history_entry env m i r (context_of env m i c)])"
    if a: "mood_write env = Written \<and> history_write env = Written \<and> history_readable env
        \<and> mood_history files \<noteq> Document JOther"
  proof -
    from a have "mood_write env = Written" "history_write env = Written"
      "history_readable env" "mood_history files \<noteq> Document JOther" by simp_all
    from update_mood_success[OF this, of m i r c] show ?thesis
      by (simp add: ledger_def[of "fst (update_mood env m i r c files)"] entries_of_simps)
  qed
  from load one keep_last_100_snoc[of "ledger files" e]
    keep_last_100_length[of "ledger files @ [e]"]
    update_mood_ledger_length[of files env m i r c]
    update_mood_ledger_subseq[of env m i r c files]
    run_calls_length[of files cs] run_calls_subseq[of cs files]
    run_calls_success[of cs files]
  show ?thesis by blast
qed

lemma manual_reset_written: "all_written (manual_reset_call Written Written)"
  by (simp add: all_written_def manual_reset_call_def manual_reset_env_def)

lemma manual_reset_entry:
  "entry_of_call (manual_reset_call Written Written)
     = \<lparr>timestamp = ''2025-01-01T00:00:01'', mood = ''neutral'', intensity = 0.5,
        reason = ''manual_reset'', is_hybrid = False, is_emergent = False,
        stability = ''medium'', hormone_snapshot = None\<rparr>"
  by (simp add: entry_of_call_def manual_reset_call_def manual_reset_env_def
      new_history_entry_def context_of_def dict_get_opt_def Let_def)

theorem mood_history_bounded_and_ordered_witness:
  "snd (load_mood_history (manual_reset_env Written Written) Missing) = JList []
   \<and> snd (load_mood_history (manual_reset_env Written Written) Unparsable) = JList []
   \<and> ledger (run_calls [manual_reset_call Written Written, manual_reset_call Written Written]
               \<lparr>mood_adjustments = Missing, mood_history = Missing\<rparr>)
       = [entry_of_call (manual_reset_call Written Written),
          entry_of_call (manual_reset_call Written Written)]
   \<and> ledger (run_calls [manual_reset_call Written Written]
               \<lparr>mood_adjustments = Missing,
                mood_history = Document (JList (replicate 100
                   (entry_of_call (manual_reset_call Written DumpFailed))))\<rparr>)
       = replicate 99 (entry_of_call (manual_reset_call Written DumpFailed))
          @ [entry_of_call (manual_reset_call Written Written)]
   \<and> entry_of_call (manual_reset_call Written Written)
       = \<lparr>timestamp = ''2025-01-01T00:00:01'', mood = ''neutral'', intensity = 0.5,
          reason = ''manual_reset'', is_hybrid = False, is_emergent = False,
          stability = ''medium'', hormone_snapshot = None\<rparr>"
proof -
  let ?env = "manual_reset_env Written Written"
  let ?c = "manual_reset_call Written Written"
  let ?old = "entry_of_call (manual_reset_call Written DumpFailed)"
  let ?empty = "\<lparr>mood_adjustments = Missing, mood_history = Missing\<rparr>"
  let ?full = "\<lparr>mood_adjustments = Missing,
                mood_history = Document (JList (replicate 100 ?old))\<rparr>"
  have l1: "snd (load_mood_history ?env Missing) = JList []"
    using mood_history_bounded_and_ordered[of Missing ?env] by blast
  have l2: "snd (load_mood_history ?env Unparsable) = JList []"
    using mood_history_bounded_and_ordered[of Unparsable ?env] by blast
  have w2: "\<forall>k\<in>set [?c, ?c]. all_written k" using manual_reset_written by simp
  have e0: "mood_history ?empty \<noteq> Document JOther" "length (ledger ?empty) \<le> 100"
    by (simp_all add: ledger_def entries_of_def)
  from mood_history_bounded_and_ordered[of _ _ ?empty _ _ _ _ _ "[?c, ?c]"] w2 e0
  have "ledger (run_calls [?c, ?c] ?empty)
      = keep_last_100 (ledger ?empty @ map entry_of_call [?c, ?c])"
    by blast
  then have r2: "ledger (run_calls [?c, ?c] ?empty) = [entry_of_call ?c, entry_of_call ?c]"
    by (simp add: ledger_def entries_of_def keep_last_100_def)
  have w1: "\<forall>k\<in>set [?c]. all_written k" using manual_reset_written by simp
  have f0: "mood_history ?full \<noteq> Document JOther" "length (ledger ?full) \<le> 100"
    by (simp_all add: ledger_def entries_of_def)
  from mood_history_bounded_and_ordered[of _ _ ?full _ _ _ _ _ "[?c]"] w1 f0
  have "ledger (run_calls [?c] ?full)
      = keep_last_100 (ledger ?full @ map entry_of_call [?c])"
    by blast
  then have r1: "ledger (run_calls [?c] ?full) = replicate 99 ?old @ [entry_of_call ?c]"
    by (simp add: ledger_def entries_of_def keep_last_100_def)
  from l1 l2 r2 r1 manual_reset_entry show ?thesis by blast
qed

text \<open>
  Claim C9. When writing the current-mood document raises, \<open>update_mood\<close> returns at
  once: no exception escapes, the history file is left as it was, and so the ledger has
  no record of that update.
\<close>

theorem failed_mood_write_leaves_ledger:
  assumes "mood_write env \<noteq> Written"
  shows "snd (update_mood env m i r c files) = None
       \<and> mood_history (fst (update_mood env m i r c files)) = mood_history files
       \<and> ledger (fst (update_mood env m i r c files)) = ledger files"
  using update_mood_write_failed[OF assms, of m i r c files] by (simp add: ledger_def)

theorem failed_mood_write_leaves_ledger_witness:
  "mood_write (manual_reset_env OpenFailed Written) \<noteq> Written
   \<and> update_mood (manual_reset_env OpenFailed Written) ''neutral'' 0.5 ''manual_reset'' None
       \<lparr>mood_adjustments = Missing, mood_history = Missing\<rparr>
     = (\<lparr>mood_adjustments = Missing, mood_history = Missing\<rparr>, None)
   \<and> mood_write (manual_reset_env DumpFailed Written) \<noteq> Written
   \<and> mood_history (fst (update_mood (manual_reset_env DumpFailed Written) ''neutral'' 0.5
        ''manual_reset'' None
        \<lparr>mood_adjustments = Missing,
         mood_history = Document (JList [entry_of_call (manual_reset_call Written Written)])\<rparr>))
     = Document (JList [entry_of_call (manual_reset_call Written Written)])"
proof -
  have a: "mood_write (manual_reset_env OpenFailed Written) \<noteq> Written"
    by (simp add: manual_reset_env_def)
  have b: "mood_write (manual_reset_env DumpFailed Written) \<noteq> Written"
    by (simp add: manual_reset_env_def)
  have "update_mood (manual_reset_env OpenFailed Written) ''neutral'' 0.5 ''manual_reset'' None
       \<lparr>mood_adjustments = Missing, mood_history = Missing\<rparr>
     = (\<lparr>mood_adjustments = Missing, mood_history = Missing\<rparr>, None)"
    by (simp add: update_mood_def manual_reset_env_def Let_def)
  moreover from failed_mood_write_leaves_ledger[OF b]
  have "mood_history (fst (update_mood (manual_reset_env DumpFailed Written) ''neutral'' 0.5
        ''manual_reset'' None
        \<lparr>mood_adjustments = Missing,
         mood_history = Document (JList [entry_of_call (manual_reset_call Written Written)])\<rparr>))
     = Document (JList [entry_of_call (manual_reset_call Written Written)])"
    by simp
  ultimately show ?thesis using a b by blast
qed

end
